theory Spec2Isabelle
  imports Complex_Main "HOL-Library.Sublist" "HOL-Library.AList"
begin

section \<open>Permission matcher (extension-authorization-provider.ts)\<close>

subsection \<open>JavaScript string helpers\<close>

text \<open>
  JavaScript strings are modelled as \<^typ>\<open>string\<close>: the matcher only compares code units
  for equality, so the width of a code unit does not matter.
\<close>

definition startsWith :: "string \<Rightarrow> string \<Rightarrow> bool" where
  "startsWith s pre = prefix pre s"

definition endsWith :: "string \<Rightarrow> string \<Rightarrow> bool" where
  "endsWith s suf = suffix suf s"

definition array_includes :: "string list \<Rightarrow> string \<Rightarrow> bool" where
  "array_includes xs x = (x \<in> set xs)"

text \<open>\<^verbatim>\<open>pattern.slice(0, -1)\<close>: everything but the last code unit.\<close>

definition slice_0_minus1 :: "string \<Rightarrow> string" where
  "slice_0_minus1 s = butlast s"

text \<open>\<^verbatim>\<open>allowedPatterns.some(f)\<close>\<close>

definition some :: "'a list \<Rightarrow> ('a \<Rightarrow> bool) \<Rightarrow> bool" where
  "some xs f = list_ex f xs"

subsection \<open>isMessageAllowed\<close>

definition isMessageAllowed :: "string \<Rightarrow> string list \<Rightarrow> bool" where
  "isMessageAllowed messageType allowedPatterns =
     (if array_includes allowedPatterns ''*'' then True
      else if array_includes allowedPatterns messageType then True
      else some allowedPatterns (\<lambda>pattern.
             if endsWith pattern '':*''
             then startsWith messageType (slice_0_minus1 pattern)
             else False))"

subsection \<open>Provider configuration and constructor\<close>

record ComponentPermission =
  canHandle :: "string list"
  canSend :: "string list"
  canBroadcast :: bool

text \<open>
  An object literal keyed by strings is an association list in declaration order
  (\<^verbatim>\<open>Object.keys\<close>, \<^verbatim>\<open>Object.entries\<close>); a read of an own property is \<^const>\<open>map_of\<close>.
  An optional property that is absent is \<^const>\<open>None\<close>.
\<close>

record ExtensionAuthorizationProviderConfig =
  permissions :: "(string \<times> ComponentPermission) list option"
  allowUndefinedMessages :: "bool option"
  enforceContentScriptOrigins :: "bool option"
  contentScriptOriginPermissions :: "(string \<times> ComponentPermission) list option"

definition defaultPermissions :: "(string \<times> ComponentPermission) list" where
  "defaultPermissions =
     [(''background'', \<lparr>canHandle = [''*''], canSend = [''*''], canBroadcast = True\<rparr>),
      (''content'', \<lparr>canHandle = [''dom:*'', ''page:*'', ''content:*''],
                     canSend = [''page:*'', ''dom:*'', ''settings:get''],
                     canBroadcast = False\<rparr>),
      (''popup'', \<lparr>canHandle = [''ui:*''], canSend = [''settings:*'', ''ui:*''],
                   canBroadcast = False\<rparr>),
      (''sidepanel'', \<lparr>canHandle = [''ui:*'', ''panel:*''],
                       canSend = [''settings:*'', ''panel:*'', ''ui:*''],
                       canBroadcast = False\<rparr>),
      (''options'', \<lparr>canHandle = [''settings:*'', ''options:*''],
                     canSend = [''settings:*'', ''options:*''],
                     canBroadcast = False\<rparr>)]"

text \<open>
  The constructor's \<^verbatim>\<open>mergedPermissions\<close>: every configured component replaces
  (or extends) the defaults. A configured \<^verbatim>\<open>ComponentPermission\<close> has all three
  fields, so the spread over the default entry yields the configured entry.
\<close>

definition mergedPermissions ::
  "ExtensionAuthorizationProviderConfig \<Rightarrow> (string \<times> ComponentPermission) list" where
  "mergedPermissions config =
     (case permissions config of
        None \<Rightarrow> defaultPermissions
      | Some ps \<Rightarrow> fold (\<lambda>(componentType, perms) merged. AList.update componentType perms merged)
                     ps defaultPermissions)"

text \<open>The resolved \<^verbatim>\<open>this.config\<close>.\<close>

record ExtensionAuthorizationProvider =
  config_permissions :: "(string \<times> ComponentPermission) list"
  config_allowUndefinedMessages :: bool
  config_enforceContentScriptOrigins :: bool
  config_contentScriptOriginPermissions :: "(string \<times> ComponentPermission) list"

text \<open>
  \<^verbatim>\<open>this.config = { permissions: mergedPermissions, allowUndefinedMessages: false,
  enforceContentScriptOrigins: true, contentScriptOriginPermissions: {}, ...config }\<close>:
  the trailing spread overwrites every property that \<^verbatim>\<open>config\<close> has, the
  \<^verbatim>\<open>permissions\<close> property included.
\<close>

definition constructor ::
  "ExtensionAuthorizationProviderConfig \<Rightarrow> ExtensionAuthorizationProvider" where
  "constructor config =
     \<lparr>config_permissions =
        (case permissions config of None \<Rightarrow> mergedPermissions config | Some ps \<Rightarrow> ps),
      config_allowUndefinedMessages =
        (case allowUndefinedMessages config of None \<Rightarrow> False | Some b \<Rightarrow> b),
      config_enforceContentScriptOrigins =
        (case enforceContentScriptOrigins config of None \<Rightarrow> True | Some b \<Rightarrow> b),
      config_contentScriptOriginPermissions =
        (case contentScriptOriginPermissions config of None \<Rightarrow> [] | Some os \<Rightarrow> os)\<rparr>"

subsection \<open>checkPermission\<close>

text \<open>
  \<^verbatim>\<open>MessageContext\<close> of the messaging library, flattened: \<^verbatim>\<open>source\<close>, \<^verbatim>\<open>timestamp\<close>,
  \<^verbatim>\<open>user.id\<close>, \<^verbatim>\<open>user.roles\<close>, \<^verbatim>\<open>meta.tabId\<close>, \<^verbatim>\<open>meta.frameId\<close>,
  \<^verbatim>\<open>meta.componentType\<close>; an absent property is \<^const>\<open>None\<close>.
\<close>

record MessageContext =
  source :: "string option"
  timestamp :: "nat option"
  user_id :: "string option"
  user_roles :: "string list option"
  meta_tabId :: "nat option"
  meta_frameId :: "nat option"
  meta_componentType :: "string option"

record PermissionCheckResult =
  isAuthorized :: bool
  error :: "string option"

text \<open>A call returns a value or throws an exception (named by its kind).\<close>

datatype 'a completion = Returns 'a | Throws string

text \<open>
  \<^verbatim>\<open>this.config.permissions[componentType]\<close> is a property read on a plain object: a
  key the object does not have itself is looked up in \<^verbatim>\<open>Object.prototype\<close>, whose
  properties are functions (and, for \<^verbatim>\<open>__proto__\<close>, the prototype object): truthy
  values without \<^verbatim>\<open>canHandle\<close>, \<^verbatim>\<open>canSend\<close> or \<^verbatim>\<open>canBroadcast\<close>.
\<close>

definition objectPrototypeKeys :: "string list" where
  "objectPrototypeKeys =
     [''constructor'', ''__defineGetter__'', ''__defineSetter__'', ''hasOwnProperty'',
      ''__lookupGetter__'', ''__lookupSetter__'', ''isPrototypeOf'',
      ''propertyIsEnumerable'', ''toString'', ''valueOf'', ''__proto__'',
      ''toLocaleString'']"

datatype 'a PropertyRead = Own 'a | Inherited | Undefined

definition readProperty :: "(string \<times> 'a) list \<Rightarrow> string \<Rightarrow> 'a PropertyRead" where
  "readProperty obj key =
     (case map_of obj key of
        Some v \<Rightarrow> Own v
      | None \<Rightarrow> if key \<in> set objectPrototypeKeys then Inherited else Undefined)"

text \<open>
  \<^verbatim>\<open>context.meta?.componentType || (context.user?.roles?.length ? context.user.roles[0] : 'unknown')\<close>;
  the empty string is falsy.
\<close>

definition componentTypeOf :: "MessageContext \<Rightarrow> string" where
  "componentTypeOf context =
     (let fallback = (case user_roles context of
                        Some (r # rs) \<Rightarrow> r
                      | _ \<Rightarrow> ''unknown'')
      in case meta_componentType context of
           None \<Rightarrow> fallback
         | Some c \<Rightarrow> if c = [] then fallback else c)"

text \<open>\<^verbatim>\<open>origin.replace(/\*/g, '.*')\<close>\<close>

definition replaceStars :: "string \<Rightarrow> string" where
  "replaceStars origin = concat (map (\<lambda>c. if c = CHR ''*'' then ''.*'' else [c]) origin)"

text \<open>
  The origin test of \<^verbatim>\<open>find\<close>. The regular-expression engine is the host's; it is
  the parameter \<open>regExpTest\<close>, applied to the pattern between \<^verbatim>\<open>^\<close> and \<^verbatim>\<open>$\<close>
  and the source.
\<close>

definition originMatches :: "(string \<Rightarrow> string \<Rightarrow> bool) \<Rightarrow> string \<Rightarrow> string \<Rightarrow> bool" where
  "originMatches regExpTest src origin =
     (if CHR ''*'' \<in> set origin
      then regExpTest (''^'' @ replaceStars origin @ ''$'') src
      else startsWith src origin)"

text \<open>
  With an inherited value for \<^verbatim>\<open>permissions\<close>, \<^verbatim>\<open>permissions.canBroadcast\<close> is
  \<^verbatim>\<open>undefined\<close>, so a broadcast check is refused, and
  \<^verbatim>\<open>isMessageAllowed(messageType, undefined)\<close> throws a \<^verbatim>\<open>TypeError\<close> at
  \<^verbatim>\<open>allowedPatterns.includes\<close>. The origin rules apply to the component type
  \<^verbatim>\<open>content\<close> only, which is not a property of \<^verbatim>\<open>Object.prototype\<close>.
\<close>

definition checkPermission ::
  "(string \<Rightarrow> string \<Rightarrow> bool) \<Rightarrow> ExtensionAuthorizationProvider \<Rightarrow> string \<Rightarrow> MessageContext
    \<Rightarrow> bool \<Rightarrow> PermissionCheckResult completion" where
  "checkPermission regExpTest this messageType context isBroadcast =
     (let componentType = componentTypeOf context in
      case readProperty (config_permissions this) componentType of
        Undefined \<Rightarrow>
          Returns
            \<lparr>isAuthorized = config_allowUndefinedMessages this,
             error = Some (''No permissions defined for component type: '' @ componentType)\<rparr>
      | Inherited \<Rightarrow>
          if isBroadcast then
            Returns
              \<lparr>isAuthorized = False,
               error = Some (''Component type '' @ componentType
                        @ '' is not allowed to broadcast messages'')\<rparr>
          else Throws ''TypeError''
      | Own perms \<Rightarrow>
          (let src = (case source context of None \<Rightarrow> [] | Some s \<Rightarrow> s);
               matchingOrigin =
                 (if config_enforceContentScriptOrigins this \<and> componentType = ''content''
                     \<and> src \<noteq> [] \<and> length (config_contentScriptOriginPermissions this) > 0
                  then find (\<lambda>(origin, _). originMatches regExpTest src origin)
                         (config_contentScriptOriginPermissions this)
                  else None)
           in case matchingOrigin of
                Some (origin, originPermissions) \<Rightarrow>
                  if isBroadcast \<and> \<not> canBroadcast originPermissions then
                    Returns
                      \<lparr>isAuthorized = False,
                       error = Some (''Origin '' @ src
                                @ '' is not allowed to broadcast messages'')\<rparr>
                  else
                    (let relevantPermissions =
                           (if isBroadcast then canSend originPermissions
                            else if startsWith messageType ''request:''
                                 then canHandle originPermissions
                                 else canSend originPermissions)
                     in if \<not> isMessageAllowed messageType relevantPermissions then
                          Returns
                            \<lparr>isAuthorized = False,
                             error = Some (''Origin '' @ src @ '' is not allowed to ''
                                      @ (if isBroadcast then ''broadcast'' else ''send'')
                                      @ '' message type: '' @ messageType)\<rparr>
                        else Returns \<lparr>isAuthorized = True, error = None\<rparr>)
              | None \<Rightarrow>
                  if isBroadcast \<and> \<not> canBroadcast perms then
                    Returns
                      \<lparr>isAuthorized = False,
                       error = Some (''Component type '' @ componentType
                                @ '' is not allowed to broadcast messages'')\<rparr>
                  else
                    (let relevantPermissions =
                           (if startsWith messageType ''request:''
                            then canHandle perms else canSend perms)
                     in if \<not> isMessageAllowed messageType relevantPermissions then
                          Returns
                            \<lparr>isAuthorized = False,
                             error = Some (''Component type '' @ componentType
                                      @ '' is not allowed to ''
                                      @ (if startsWith messageType ''request:''
                                         then ''handle'' else ''send'')
                                      @ '' message type: '' @ messageType)\<rparr>
                        else Returns \<lparr>isAuthorized = True, error = None\<rparr>)))"

section \<open>ChromeExtensionTransport (chrome-extension-transport.ts)\<close>

subsection \<open>Values, messages, promises\<close>

text \<open>
  Application values (\<^verbatim>\<open>any\<close>) are opaque to the transport; they are strings here, and
  an absent or \<^verbatim>\<open>undefined\<close> value is \<^const>\<open>None\<close>. A value a promise is rejected with
  is either \<^verbatim>\<open>new Error(msg)\<close> or a value taken from a message.
\<close>

type_synonym jsany = string

datatype Rejection = Error string | Thrown jsany

datatype PromiseState = Pending | Fulfilled "jsany option" | Rejected Rejection

definition truthy :: "string option \<Rightarrow> bool" where
  "truthy v = (case v of None \<Rightarrow> False | Some s \<Rightarrow> s \<noteq> [])"

definition truthyNum :: "nat option \<Rightarrow> bool" where
  "truthyNum v = (case v of None \<Rightarrow> False | Some n \<Rightarrow> n \<noteq> 0)"

text \<open>\<^verbatim>\<open>a || b\<close> on strings\<close>

definition orElse :: "string option \<Rightarrow> string \<Rightarrow> string" where
  "orElse v d = (case v of None \<Rightarrow> d | Some s \<Rightarrow> if s = [] then d else s)"

record TransportMessage =
  msg_id :: string
  msg_type :: string
  payload :: "jsany option"
  msg_timestamp :: "nat option"
  correlationId :: "string option"
  msg_error :: "jsany option"

text \<open>The envelope \<^verbatim>\<open>{ namespace, componentType, data, action }\<close> on the wire.\<close>

record WrappedMessage =
  w_namespace :: "string option"
  w_componentType :: "string option"
  w_data :: "TransportMessage option"
  w_action :: "string option"

record Message =
  message_id :: string
  message_type :: string
  message_payload :: "jsany option"
  message_correlationId :: "string option"

record MessageSender =
  sender_url :: "string option"
  sender_id :: "string option"
  sender_tab_id :: "nat option"
  sender_frameId :: "nat option"

datatype ComponentType = Background | Content | Popup | Sidepanel | Options

definition componentTypeName :: "ComponentType \<Rightarrow> string" where
  "componentTypeName c =
     (case c of Background \<Rightarrow> ''background'' | Content \<Rightarrow> ''content'' | Popup \<Rightarrow> ''popup''
      | Sidepanel \<Rightarrow> ''sidepanel'' | Options \<Rightarrow> ''options'')"

record ChromeExtensionTransportConfig =
  componentType :: ComponentType
  targetTabId :: "nat option"
  handleResponses :: "bool option"
  cfg_namespace :: "string option"

text \<open>
  An entry of \<^verbatim>\<open>responseHandlers\<close>: \<^verbatim>\<open>resolve\<close> and \<^verbatim>\<open>reject\<close> are the two
  functions of one promise (its identifier), \<^verbatim>\<open>timeout\<close> is the timer handle.
\<close>

record ResponseHandler =
  rh_promise :: nat
  rh_timeout :: nat

text \<open>
  What the \<^verbatim>\<open>setTimeout\<close> callback of \<^verbatim>\<open>sendToTab\<close>/\<^verbatim>\<open>sendViaRuntime\<close> closes over,
  and the time at which it is due.
\<close>

record TimeoutClosure =
  tc_correlationId :: string
  tc_promise :: nat
  tc_type :: string
  tc_due :: nat

datatype SendKind = ToTab | ViaRuntime

text \<open>What the callback handed to \<^verbatim>\<open>chrome.*.sendMessage\<close> closes over.\<close>

record SendCallback =
  cb_kind :: SendKind
  cb_correlationId :: string
  cb_timeout :: nat
  cb_promise :: nat

datatype Effect =
    ResolveCalled nat "jsany option"
  | RejectCalled nat Rejection
  | TabsSendMessage nat WrappedMessage "SendCallback option"
  | RuntimeSendMessage WrappedMessage "SendCallback option"
  | SendMessageThrew "nat option" WrappedMessage Rejection
  | HandlerInvoked nat "jsany option" MessageContext
  | SendResponse WrappedMessage
  | OnMessageAddListener
  | OnConnectAddListener
  | OnMessageRemoveListener

text \<open>
  The transport object together with the parts of the host it acts on: the pending
  timers, the promises it created, the clock, and the trace of calls it made (to
  \<^verbatim>\<open>resolve\<close>/\<^verbatim>\<open>reject\<close>, to the Chrome messaging API, to registered handlers).
  A \<^verbatim>\<open>Map\<close> is an association list in insertion order: \<^const>\<open>AList.update\<close> keeps
  the position of an existing key and appends a new one, as \<^verbatim>\<open>Map.set\<close> does.
\<close>

record ChromeExtensionTransport =
  config :: ChromeExtensionTransportConfig
  messageHandlers :: "(string \<times> nat) list"
  responseHandlers :: "(string \<times> ResponseHandler) list"
  namespace :: string
  timers :: "(nat \<times> TimeoutClosure) list"
  promises :: "(nat \<times> PromiseState) list"
  nextId :: nat
  now :: nat
  trace :: "Effect list"

definition MESSAGE_TIMEOUT :: nat where
  "MESSAGE_TIMEOUT = 30000"

subsection \<open>Promises and timers\<close>

text \<open>A promise settles once; later calls of its \<^verbatim>\<open>resolve\<close>/\<^verbatim>\<open>reject\<close> change nothing.\<close>

definition settle :: "nat \<Rightarrow> PromiseState \<Rightarrow> (nat \<times> PromiseState) list \<Rightarrow> (nat \<times> PromiseState) list" where
  "settle p outcome ps =
     (case map_of ps p of Some Pending \<Rightarrow> AList.update p outcome ps | _ \<Rightarrow> ps)"

definition resolve :: "nat \<Rightarrow> jsany option \<Rightarrow> ChromeExtensionTransport \<Rightarrow> ChromeExtensionTransport" where
  "resolve p v this =
     this\<lparr>promises := settle p (Fulfilled v) (promises this),
          trace := trace this @ [ResolveCalled p v]\<rparr>"

definition reject :: "nat \<Rightarrow> Rejection \<Rightarrow> ChromeExtensionTransport \<Rightarrow> ChromeExtensionTransport" where
  "reject p e this =
     this\<lparr>promises := settle p (Rejected e) (promises this),
          trace := trace this @ [RejectCalled p e]\<rparr>"

definition clearTimeout :: "nat \<Rightarrow> ChromeExtensionTransport \<Rightarrow> ChromeExtensionTransport" where
  "clearTimeout t this = this\<lparr>timers := AList.delete t (timers this)\<rparr>"

subsection \<open>constructor, setupMessageListeners\<close>

definition setupMessageListeners :: "ChromeExtensionTransport \<Rightarrow> ChromeExtensionTransport" where
  "setupMessageListeners this =
     (if componentType (config this) = Background
      then this\<lparr>trace := trace this @ [OnMessageAddListener, OnConnectAddListener]\<rparr>
      else this\<lparr>trace := trace this @ [OnMessageAddListener]\<rparr>)"

definition newChromeExtensionTransport ::
  "ChromeExtensionTransportConfig \<Rightarrow> nat \<Rightarrow> ChromeExtensionTransport" where
  "newChromeExtensionTransport cfg clock =
     setupMessageListeners
       \<lparr>config = cfg, messageHandlers = [], responseHandlers = [],
        namespace = orElse (cfg_namespace cfg) ''magicbutton'',
        timers = [], promises = [], nextId = 0, now = clock, trace = []\<rparr>"

subsection \<open>handleIncomingMessage\<close>

definition handlerContext :: "ChromeExtensionTransport \<Rightarrow> WrappedMessage \<Rightarrow> MessageSender \<Rightarrow> MessageContext" where
  "handlerContext this message sender =
     \<lparr>source = Some (orElse (sender_url sender) ''unknown''),
      timestamp = Some (now this),
      user_id = Some (orElse (sender_id sender) ''unknown''),
      user_roles = Some [],
      meta_tabId = sender_tab_id sender,
      meta_frameId = sender_frameId sender,
      meta_componentType = Some (orElse (w_componentType message) ''unknown'')\<rparr>"

text \<open>
  The result is the listener's return value, or the \<^verbatim>\<open>TypeError\<close> of reading
  \<^verbatim>\<open>transportMessage.type\<close> when the envelope has no \<^verbatim>\<open>data\<close>. \<open>hasSendResponse\<close>
  says whether a \<^verbatim>\<open>sendResponse\<close> function was passed; it is used only by the
  continuation \<open>handlerCompleted\<close>.
\<close>

definition handleIncomingMessage ::
  "ChromeExtensionTransport \<Rightarrow> WrappedMessage option \<Rightarrow> MessageSender
     \<Rightarrow> bool completion \<times> ChromeExtensionTransport" where
  "handleIncomingMessage this message sender =
     (case message of
        None \<Rightarrow> (Returns False, this)
      | Some m \<Rightarrow>
          if \<not> truthy (w_namespace m) \<or> w_namespace m \<noteq> Some (namespace this)
          then (Returns False, this)
          else
            (case w_data m of
               None \<Rightarrow> (Throws ''TypeError'', this)
             | Some transportMessage \<Rightarrow>
                 if msg_type transportMessage = ''response''
                    \<and> truthy (correlationId transportMessage)
                 then
                   (let cid = the (correlationId transportMessage) in
                    case map_of (responseHandlers this) cid of
                      Some responseHandler \<Rightarrow>
                        (let this1 = this\<lparr>responseHandlers :=
                                             AList.delete cid (responseHandlers this)\<rparr>;
                             this2 = clearTimeout (rh_timeout responseHandler) this1
                         in (Returns False,
                             if truthy (msg_error transportMessage)
                             then reject (rh_promise responseHandler)
                                    (Thrown (the (msg_error transportMessage))) this2
                             else resolve (rh_promise responseHandler)
                                    (payload transportMessage) this2))
                    | None \<Rightarrow> (Returns False, this))
                 else
                   (case map_of (messageHandlers this) (msg_type transportMessage) of
                      Some handler \<Rightarrow>
                        (Returns (handleResponses (config this) \<noteq> Some False),
                         this\<lparr>trace := trace this
                                 @ [HandlerInvoked handler (payload transportMessage)
                                      (handlerContext this m sender)]\<rparr>)
                    | None \<Rightarrow> (Returns False, this))))"

text \<open>
  The \<^verbatim>\<open>.then\<close>/\<^verbatim>\<open>.catch\<close> continuation of a handler invocation: a result
  (\<^const>\<open>Inr\<close>) or an error with its \<^verbatim>\<open>code\<close> and \<^verbatim>\<open>message\<close> (\<^const>\<open>Inl\<close>) is
  sent back through \<^verbatim>\<open>sendResponse\<close>, when there is one and responses are handled.
  The error object \<^verbatim>\<open>{ code, message }\<close> is carried as its message text.
\<close>

definition handlerCompleted ::
  "ChromeExtensionTransport \<Rightarrow> TransportMessage \<Rightarrow> bool \<Rightarrow> (string + jsany option)
     \<Rightarrow> ChromeExtensionTransport" where
  "handlerCompleted this transportMessage hasSendResponse outcome =
     (if hasSendResponse \<and> handleResponses (config this) \<noteq> Some False
      then this\<lparr>trace := trace this @ [SendResponse
             \<lparr>w_namespace = Some (namespace this), w_componentType = None,
              w_data = Some
                \<lparr>msg_id = [], msg_type = ''response'',
                 payload = (case outcome of Inr result \<Rightarrow> result | Inl e \<Rightarrow> None),
                 msg_timestamp = None,
                 correlationId = Some (msg_id transportMessage),
                 msg_error = (case outcome of Inr result \<Rightarrow> None | Inl e \<Rightarrow> Some e)\<rparr>,
              w_action = None\<rparr>]\<rparr>
      else this)"

subsection \<open>send, sendToTab, sendViaRuntime\<close>

text \<open>
  The body of the promise executor shared by \<^verbatim>\<open>sendToTab\<close> and \<^verbatim>\<open>sendViaRuntime\<close>:
  create the promise, arm the timer, store the entry, hand the message and the
  callback to Chrome. \<open>thrown\<close> is the exception of the \<^verbatim>\<open>sendMessage\<close> call, if it
  throws: the promise constructor then rejects the new promise with it, Chrome has
  not taken the callback, and the entry and the timer stay. The result is the
  promise returned to the caller.
\<close>

definition sendWith ::
  "SendKind \<Rightarrow> nat \<Rightarrow> WrappedMessage \<Rightarrow> TransportMessage \<Rightarrow> Rejection option
     \<Rightarrow> ChromeExtensionTransport \<Rightarrow> nat \<times> ChromeExtensionTransport" where
  "sendWith kind tabId message data thrown this =
     (let p = nextId this;
          t = Suc (nextId this);
          correlationId = msg_id data;
          cb = \<lparr>cb_kind = kind, cb_correlationId = correlationId, cb_timeout = t,
                cb_promise = p\<rparr>
      in (p,
          this\<lparr>promises := AList.update p
                  (case thrown of None \<Rightarrow> Pending | Some e \<Rightarrow> Rejected e) (promises this),
               timers := AList.update t
                  \<lparr>tc_correlationId = correlationId, tc_promise = p,
                   tc_type = msg_type data, tc_due = now this + MESSAGE_TIMEOUT\<rparr>
                  (timers this),
               responseHandlers := AList.update correlationId
                  \<lparr>rh_promise = p, rh_timeout = t\<rparr> (responseHandlers this),
               nextId := Suc (Suc (nextId this)),
               trace := trace this @
                  [case thrown of
                     Some e \<Rightarrow>
                       SendMessageThrew (case kind of ToTab \<Rightarrow> Some tabId | ViaRuntime \<Rightarrow> None)
                         message e
                   | None \<Rightarrow>
                       (case kind of
                          ToTab \<Rightarrow> TabsSendMessage tabId message (Some cb)
                        | ViaRuntime \<Rightarrow> RuntimeSendMessage message (Some cb))]\<rparr>))"

definition sendToTab ::
  "nat \<Rightarrow> WrappedMessage \<Rightarrow> TransportMessage \<Rightarrow> Rejection option \<Rightarrow> ChromeExtensionTransport
     \<Rightarrow> nat \<times> ChromeExtensionTransport" where
  "sendToTab tabId message data thrown this = sendWith ToTab tabId message data thrown this"

definition sendViaRuntime ::
  "WrappedMessage \<Rightarrow> TransportMessage \<Rightarrow> Rejection option \<Rightarrow> ChromeExtensionTransport
     \<Rightarrow> nat \<times> ChromeExtensionTransport" where
  "sendViaRuntime message data thrown this = sendWith ViaRuntime 0 message data thrown this"

definition wrap :: "ChromeExtensionTransport \<Rightarrow> TransportMessage \<Rightarrow> WrappedMessage" where
  "wrap this transportMessage =
     \<lparr>w_namespace = Some (namespace this),
      w_componentType = Some (componentTypeName (componentType (config this))),
      w_data = Some transportMessage,
      w_action = None\<rparr>"

text \<open>
  \<^verbatim>\<open>send\<close>; \<open>thrown\<close> is the exception of the Chrome \<^verbatim>\<open>sendMessage\<close> call it ends
  in, if that call throws.
\<close>

definition send ::
  "Message \<Rightarrow> MessageContext option \<Rightarrow> Rejection option \<Rightarrow> ChromeExtensionTransport
     \<Rightarrow> nat \<times> ChromeExtensionTransport" where
  "send message context thrown this =
     (let transportMessage =
            \<lparr>msg_id = message_id message, msg_type = message_type message,
             payload = message_payload message, msg_timestamp = Some (now this),
             correlationId = message_correlationId message, msg_error = None\<rparr>;
          wrappedMessage = wrap this transportMessage;
          contextTabId = (case context of None \<Rightarrow> None | Some c \<Rightarrow> meta_tabId c)
      in if componentType (config this) = Content \<and> truthyNum (targetTabId (config this))
         then sendToTab (the (targetTabId (config this))) wrappedMessage transportMessage
                thrown this
         else if componentType (config this) = Background \<and> truthyNum contextTabId
         then sendToTab (the contextTabId) wrappedMessage transportMessage thrown this
         else sendViaRuntime wrappedMessage transportMessage thrown this)"

text \<open>
  The callback Chrome invokes for a \<^verbatim>\<open>sendMessage\<close>. \<open>lastError\<close> is
  \<^verbatim>\<open>chrome.runtime.lastError\<close> (\<^const>\<open>None\<close> when unset, otherwise its optional
  message), \<open>response\<close> the callback's argument.
\<close>

definition sendCallback ::
  "SendCallback \<Rightarrow> string option option \<Rightarrow> WrappedMessage option \<Rightarrow> ChromeExtensionTransport
     \<Rightarrow> ChromeExtensionTransport" where
  "sendCallback cb lastError response this =
     (case lastError of
        Some lastErrorMessage \<Rightarrow>
          reject (cb_promise cb)
            (Error (orElse lastErrorMessage
                      (case cb_kind cb of ToTab \<Rightarrow> ''Failed to send message to tab''
                       | ViaRuntime \<Rightarrow> ''Failed to send message'')))
            (clearTimeout (cb_timeout cb)
               (this\<lparr>responseHandlers :=
                       AList.delete (cb_correlationId cb) (responseHandlers this)\<rparr>))
      | None \<Rightarrow>
          (case response of
             Some r \<Rightarrow>
               (let this2 = clearTimeout (cb_timeout cb)
                              (this\<lparr>responseHandlers :=
                                 AList.delete (cb_correlationId cb) (responseHandlers this)\<rparr>);
                    err = (case w_data r of None \<Rightarrow> None | Some d \<Rightarrow> msg_error d)
                in if truthy err
                   then reject (cb_promise cb) (Thrown (the err)) this2
                   else resolve (cb_promise cb)
                          (case w_data r of None \<Rightarrow> None | Some d \<Rightarrow> payload d) this2)
           | None \<Rightarrow> this))"

text \<open>
  The \<^verbatim>\<open>setTimeout\<close> callback. A timer that was cleared is no longer in \<open>timers\<close>
  and does not run.
\<close>

definition timeoutFired :: "nat \<Rightarrow> ChromeExtensionTransport \<Rightarrow> ChromeExtensionTransport" where
  "timeoutFired t this =
     (case map_of (timers this) t of
        None \<Rightarrow> this
      | Some c \<Rightarrow>
          reject (tc_promise c) (Error (''Message timeout: '' @ tc_type c))
            (this\<lparr>timers := AList.delete t (timers this),
                  responseHandlers :=
                    AList.delete (tc_correlationId c) (responseHandlers this)\<rparr>))"

text \<open>
  The clock moves to \<open>t\<close>; the timers due by then run in the order of their due times,
  timers due at the same time in the order they were set.
\<close>

definition dueTimers :: "nat \<Rightarrow> ChromeExtensionTransport \<Rightarrow> nat list" where
  "dueTimers t this =
     map fst (sort_key (\<lambda>(h, c). tc_due c) (filter (\<lambda>(h, c). tc_due c \<le> t) (timers this)))"

definition advanceTo :: "nat \<Rightarrow> ChromeExtensionTransport \<Rightarrow> ChromeExtensionTransport" where
  "advanceTo t this = (fold timeoutFired (dueTimers t this) this)\<lparr>now := max t (now this)\<rparr>"

subsection \<open>broadcast\<close>

record Tab =
  tab_id :: "nat option"

text \<open>
  What a call of \<^verbatim>\<open>chrome.tabs.sendMessage\<close> or \<^verbatim>\<open>chrome.runtime.sendMessage\<close>
  without a callback does: the promise it returns is fulfilled, or is rejected, or
  the call itself throws.
\<close>

datatype Delivery = Delivered | RejectsLater Rejection | ThrowsNow Rejection

definition throwsNow :: "Delivery \<Rightarrow> bool" where
  "throwsNow d = (case d of ThrowsNow e \<Rightarrow> True | _ \<Rightarrow> False)"

record BroadcastOutcome =
  bo_result :: "Rejection + unit"
  bo_reported :: "Rejection list"

text \<open>\<^verbatim>\<open>.catch(() => { /* Ignore errors for broadcast operations */ })\<close>: nothing is reported.\<close>

definition ignoreBroadcastError :: "Rejection \<Rightarrow> Rejection list" where
  "ignoreBroadcastError e = []"

text \<open>
  \<^verbatim>\<open>tabs.forEach(tab => { if (tab.id) { chrome.tabs.sendMessage(tab.id, wrappedMessage).catch(...) } })\<close>.
  The result is the calls made, what the \<^verbatim>\<open>catch\<close> handlers reported, and the
  exception that ended the loop, if a call threw: the remaining tabs are then not
  visited.
\<close>

fun forEachTab ::
  "WrappedMessage \<Rightarrow> (nat \<Rightarrow> Delivery) \<Rightarrow> Tab list
     \<Rightarrow> Effect list \<times> Rejection list \<times> Rejection option" where
  "forEachTab w delivery [] = ([], [], None)"
| "forEachTab w delivery (tab # tabs) =
     (if truthyNum (tab_id tab) then
        (case delivery (the (tab_id tab)) of
           ThrowsNow e \<Rightarrow> ([SendMessageThrew (tab_id tab) w e], [], Some e)
         | RejectsLater e \<Rightarrow>
             (case forEachTab w delivery tabs of
                (calls, reported, thrown) \<Rightarrow>
                  (TabsSendMessage (the (tab_id tab)) w None # calls,
                   ignoreBroadcastError e @ reported, thrown))
         | Delivered \<Rightarrow>
             (case forEachTab w delivery tabs of
                (calls, reported, thrown) \<Rightarrow>
                  (TabsSendMessage (the (tab_id tab)) w None # calls, reported, thrown)))
      else forEachTab w delivery tabs)"

text \<open>
  \<open>tabsQuery\<close> is the outcome of \<^verbatim>\<open>await chrome.tabs.query({})\<close>; \<open>delivery tabId\<close> is
  what \<^verbatim>\<open>chrome.tabs.sendMessage(tabId, ...)\<close> does, \<open>runtimeDelivery\<close> what
  \<^verbatim>\<open>chrome.runtime.sendMessage\<close> does. An exception that is not caught rejects the
  promise of \<^verbatim>\<open>broadcast\<close> (\<^const>\<open>Inl\<close>).
\<close>

definition broadcast ::
  "Message \<Rightarrow> (Rejection + Tab list) \<Rightarrow> (nat \<Rightarrow> Delivery) \<Rightarrow> Delivery
     \<Rightarrow> ChromeExtensionTransport \<Rightarrow> BroadcastOutcome \<times> ChromeExtensionTransport" where
  "broadcast message tabsQuery delivery runtimeDelivery this =
     (let transportMessage =
            \<lparr>msg_id = message_id message, msg_type = message_type message,
             payload = message_payload message, msg_timestamp = Some (now this),
             correlationId = None, msg_error = None\<rparr>;
          wrappedMessage = wrap this transportMessage
      in case componentType (config this) of
           Background \<Rightarrow>
             (case tabsQuery of
                Inl e \<Rightarrow> (\<lparr>bo_result = Inl e, bo_reported = []\<rparr>, this)
              | Inr tabs \<Rightarrow>
                  (case forEachTab wrappedMessage delivery tabs of
                     (calls, reported, thrown) \<Rightarrow>
                       (\<lparr>bo_result = (case thrown of None \<Rightarrow> Inr () | Some e \<Rightarrow> Inl e),
                         bo_reported = reported\<rparr>,
                        this\<lparr>trace := trace this @ calls\<rparr>)))
         | _ \<Rightarrow>
             (let broadcastMessage = wrappedMessage\<lparr>w_action := Some ''broadcast''\<rparr> in
              case runtimeDelivery of
                ThrowsNow e \<Rightarrow>
                  (\<lparr>bo_result = Inl e, bo_reported = []\<rparr>,
                   this\<lparr>trace := trace this @ [SendMessageThrew None broadcastMessage e]\<rparr>)
              | RejectsLater e \<Rightarrow>
                  (\<lparr>bo_result = Inr (), bo_reported = ignoreBroadcastError e\<rparr>,
                   this\<lparr>trace := trace this @ [RuntimeSendMessage broadcastMessage None]\<rparr>)
              | Delivered \<Rightarrow>
                  (\<lparr>bo_result = Inr (), bo_reported = []\<rparr>,
                   this\<lparr>trace := trace this @ [RuntimeSendMessage broadcastMessage None]\<rparr>)))"

subsection \<open>onMessage, offMessage, close\<close>

definition onMessage :: "string \<Rightarrow> nat \<Rightarrow> ChromeExtensionTransport \<Rightarrow> ChromeExtensionTransport" where
  "onMessage type handler this =
     this\<lparr>messageHandlers := AList.update type handler (messageHandlers this)\<rparr>"

definition offMessage :: "string \<Rightarrow> ChromeExtensionTransport \<Rightarrow> ChromeExtensionTransport" where
  "offMessage type this = this\<lparr>messageHandlers := AList.delete type (messageHandlers this)\<rparr>"

definition close :: "ChromeExtensionTransport \<Rightarrow> ChromeExtensionTransport" where
  "close this =
     (fold (\<lambda>(cid, h). clearTimeout (rh_timeout h)) (responseHandlers this) this)
       \<lparr>responseHandlers := [],
        trace := trace this @ [OnMessageRemoveListener]\<rparr>"

section \<open>ChromeTransport (chrome-transport.ts)\<close>

text \<open>
  Delays and the backoff factor are JavaScript numbers; they are reals here, so the
  rounding of doubles is not modelled (the values the properties below compute with,
  100, 2 and their products, are exact in both).
\<close>

record ReconnectOptions =
  maxRetries :: nat
  backoffFactor :: real
  initialDelayMs :: real

record ChromeTransportConfig =
  extensionId :: "string option"
  connectionName :: string
  cfg_reconnect :: "bool option"
  cfg_reconnectOptions :: "ReconnectOptions option"
  cfg_connectTimeoutMs :: "real option"

record ChromeTransportResolvedConfig =
  rc_extensionId :: "string option"
  rc_connectionName :: string
  reconnect :: bool
  reconnectOptions :: ReconnectOptions
  connectTimeoutMs :: real

datatype TimerAction = ConnectTimeoutTimer | ReconnectTimer

record PortMessage =
  pm_type :: string
  pm_payload :: "jsany option"
  pm_requestId :: "string option"

datatype PortEffect =
    RuntimeConnect "string option" string
  | PortListenersAdded nat
  | PortDisconnect nat
  | PortPostMessage nat PortMessage
  | ConnectResolveCalled nat
  | ConnectRejectCalled nat Rejection
  | SetTimeoutCalled nat TimerAction real

record ChromeTransport =
  ct_config :: ChromeTransportResolvedConfig
  port :: "nat option"
  reconnectAttempts :: nat
  connectPromise :: "nat option"
  connectResolver :: "nat option"
  connectRejecter :: "nat option"
  isConnected :: bool
  ct_timers :: "(nat \<times> TimerAction \<times> real) list"
  ct_promises :: "(nat \<times> PromiseState) list"
  ct_nextId :: nat
  ct_trace :: "PortEffect list"

text \<open>\<^verbatim>\<open>x || d\<close> on numbers: 0 is falsy.\<close>

definition orDefault :: "'a::zero option \<Rightarrow> 'a \<Rightarrow> 'a" where
  "orDefault v d = (case v of None \<Rightarrow> d | Some x \<Rightarrow> if x = 0 then d else x)"

definition newChromeTransport :: "ChromeTransportConfig \<Rightarrow> ChromeTransport" where
  "newChromeTransport cfg =
     \<lparr>ct_config =
        \<lparr>rc_extensionId = extensionId cfg,
         rc_connectionName = connectionName cfg,
         reconnect = (cfg_reconnect cfg \<noteq> Some False),
         reconnectOptions =
           \<lparr>maxRetries = orDefault (map_option maxRetries (cfg_reconnectOptions cfg)) 5,
            backoffFactor = orDefault (map_option backoffFactor (cfg_reconnectOptions cfg)) 1.5,
            initialDelayMs = orDefault (map_option initialDelayMs (cfg_reconnectOptions cfg)) 1000\<rparr>,
         connectTimeoutMs = orDefault (cfg_connectTimeoutMs cfg) 10000\<rparr>,
      port = None, reconnectAttempts = 0, connectPromise = None, connectResolver = None,
      connectRejecter = None, isConnected = False,
      ct_timers = [], ct_promises = [], ct_nextId = 0, ct_trace = []\<rparr>"

definition ChromeTransport_setTimeout ::
  "nat \<Rightarrow> TimerAction \<Rightarrow> real \<Rightarrow> ChromeTransport \<Rightarrow> ChromeTransport" where
  "ChromeTransport_setTimeout t action delay this =
     this\<lparr>ct_timers := AList.update t (action, delay) (ct_timers this),
          ct_trace := ct_trace this @ [SetTimeoutCalled t action delay]\<rparr>"

definition ChromeTransport_clearTimeout :: "nat \<Rightarrow> ChromeTransport \<Rightarrow> ChromeTransport" where
  "ChromeTransport_clearTimeout t this = this\<lparr>ct_timers := AList.delete t (ct_timers this)\<rparr>"

definition connectResolve :: "nat \<Rightarrow> ChromeTransport \<Rightarrow> ChromeTransport" where
  "connectResolve p this =
     this\<lparr>ct_promises := settle p (Fulfilled None) (ct_promises this),
          ct_trace := ct_trace this @ [ConnectResolveCalled p]\<rparr>"

definition connectReject :: "nat \<Rightarrow> Rejection \<Rightarrow> ChromeTransport \<Rightarrow> ChromeTransport" where
  "connectReject p e this =
     this\<lparr>ct_promises := settle p (Rejected e) (ct_promises this),
          ct_trace := ct_trace this @ [ConnectRejectCalled p e]\<rparr>"

definition cleanupConnectionPromise :: "ChromeTransport \<Rightarrow> ChromeTransport" where
  "cleanupConnectionPromise this =
     this\<lparr>connectPromise := None, connectResolver := None, connectRejecter := None\<rparr>"

text \<open>
  \<^verbatim>\<open>handleReconnect\<close>; the debug log lines are left out. The exponent is the attempt
  counter after its increment, minus one.
\<close>

definition handleReconnect :: "ChromeTransport \<Rightarrow> ChromeTransport" where
  "handleReconnect this =
     (let options = reconnectOptions (ct_config this) in
      if reconnectAttempts this < maxRetries options then
        (let this1 = this\<lparr>reconnectAttempts := reconnectAttempts this + 1\<rparr>;
             delay = initialDelayMs options
                       * backoffFactor options ^ (reconnectAttempts this1 - 1)
         in ChromeTransport_setTimeout (ct_nextId this1) ReconnectTimer delay
              (this1\<lparr>ct_nextId := Suc (ct_nextId this1)\<rparr>))
      else this)"

definition setupConnectionHandlers :: "ChromeTransport \<Rightarrow> ChromeTransport" where
  "setupConnectionHandlers this =
     (case port this of
        None \<Rightarrow> this
      | Some p \<Rightarrow> this\<lparr>ct_trace := ct_trace this @ [PortListenersAdded p]\<rparr>)"

datatype ConnectReturn = ResolvedImmediately | Follows nat

text \<open>
  \<^verbatim>\<open>connect\<close>. \<open>channel\<close> is what \<^verbatim>\<open>chrome.runtime.connect\<close> does if it is called:
  it returns a port (\<^const>\<open>Inr\<close>) or throws (\<^const>\<open>Inl\<close>). It is called with the
  extension id when that is a non-empty string, and without one otherwise. The executor passed to
  \<^verbatim>\<open>new Promise\<close> runs to its end before the new promise is assigned to
  \<^verbatim>\<open>this.connectPromise\<close>, so the assignment comes after the executor's own
  \<^verbatim>\<open>cleanupConnectionPromise\<close> and its \<^verbatim>\<open>handleReconnect\<close>. The result is what the
  caller's promise does: it resolves at once, or it follows the stored promise.
\<close>

definition ChromeTransport_connect ::
  "(Rejection + nat) \<Rightarrow> ChromeTransport \<Rightarrow> ConnectReturn \<times> ChromeTransport" where
  "ChromeTransport_connect channel this =
     (if isConnected this \<and> port this \<noteq> None then (ResolvedImmediately, this)
      else
        (case connectPromise this of
           Some existing \<Rightarrow> (Follows existing, this)
         | None \<Rightarrow>
             (let p = ct_nextId this;
                  timeout = Suc (ct_nextId this);
                  this1 = this\<lparr>ct_promises := AList.update p Pending (ct_promises this),
                               ct_nextId := Suc (Suc (ct_nextId this)),
                               connectResolver := Some p,
                               connectRejecter := Some p\<rparr>;
                  this2 = ChromeTransport_setTimeout timeout ConnectTimeoutTimer
                            (connectTimeoutMs (ct_config this1)) this1;
                  this3 = this2\<lparr>ct_trace := ct_trace this2 @
                             [RuntimeConnect
                                (if truthy (rc_extensionId (ct_config this2))
                                 then rc_extensionId (ct_config this2) else None)
                                (rc_connectionName (ct_config this2))]\<rparr>;
                  this4 =
                    (case channel of
                       Inr newPort \<Rightarrow>
                         (let a = setupConnectionHandlers (this3\<lparr>port := Some newPort\<rparr>);
                              b = ChromeTransport_clearTimeout timeout a;
                              c = b\<lparr>isConnected := True, reconnectAttempts := 0\<rparr>
                          in case connectResolver c of
                               Some r \<Rightarrow> cleanupConnectionPromise (connectResolve r c)
                             | None \<Rightarrow> c)
                     | Inl err \<Rightarrow>
                         (let b = ChromeTransport_clearTimeout timeout this3;
                              c = (case connectRejecter b of
                                     Some r \<Rightarrow> cleanupConnectionPromise (connectReject r err b)
                                   | None \<Rightarrow> b)
                          in if reconnect (ct_config c) then handleReconnect c else c))
              in (Follows p, this4\<lparr>connectPromise := Some p\<rparr>))))"

definition ChromeTransport_disconnect :: "ChromeTransport \<Rightarrow> ChromeTransport" where
  "ChromeTransport_disconnect this =
     cleanupConnectionPromise
       ((case port this of
           Some p \<Rightarrow> this\<lparr>port := None, ct_trace := ct_trace this @ [PortDisconnect p]\<rparr>
         | None \<Rightarrow> this)\<lparr>isConnected := False\<rparr>)"

definition handleDisconnection :: "ChromeTransport \<Rightarrow> ChromeTransport" where
  "handleDisconnection this =
     (let wasConnected = isConnected this;
          this1 = this\<lparr>isConnected := False, port := None\<rparr>
      in if wasConnected \<and> reconnect (ct_config this1) then handleReconnect this1 else this1)"

text \<open>
  \<^verbatim>\<open>send\<close>. \<open>postOutcome\<close> is the exception \<^verbatim>\<open>port.postMessage\<close> throws, if it is
  called and throws.
\<close>

definition ChromeTransport_send ::
  "PortMessage \<Rightarrow> Rejection option \<Rightarrow> ChromeTransport \<Rightarrow> (Rejection + unit) \<times> ChromeTransport" where
  "ChromeTransport_send message postOutcome this =
     (if port this = None \<or> \<not> isConnected this
      then (Inl (Error ''Transport not connected''), this)
      else
        (let this1 = this\<lparr>ct_trace := ct_trace this @ [PortPostMessage (the (port this)) message]\<rparr>
         in case postOutcome of
              None \<Rightarrow> (Inr (), this1)
            | Some err \<Rightarrow> (Inl err, handleDisconnection this1)))"

definition sendRequest ::
  "string \<Rightarrow> jsany option \<Rightarrow> string option \<Rightarrow> Rejection option \<Rightarrow> ChromeTransport
     \<Rightarrow> (Rejection + unit) \<times> ChromeTransport" where
  "sendRequest type pl requestId postOutcome this =
     ChromeTransport_send \<lparr>pm_type = type, pm_payload = pl, pm_requestId = requestId\<rparr>
       postOutcome this"

definition publish ::
  "string \<Rightarrow> jsany option \<Rightarrow> Rejection option \<Rightarrow> ChromeTransport
     \<Rightarrow> (Rejection + unit) \<times> ChromeTransport" where
  "publish eventType pl postOutcome this =
     ChromeTransport_send \<lparr>pm_type = ''event:'' @ eventType, pm_payload = pl, pm_requestId = None\<rparr>
       postOutcome this"

text \<open>
  A timer of the host runs: the connect timeout rejects the stored rejecter, a
  reconnect timer calls \<^verbatim>\<open>this.connect()\<close> and only logs its failure.
\<close>

definition ChromeTransport_timerFired ::
  "nat \<Rightarrow> (Rejection + nat) \<Rightarrow> ChromeTransport \<Rightarrow> ChromeTransport" where
  "ChromeTransport_timerFired t channel this =
     (case map_of (ct_timers this) t of
        None \<Rightarrow> this
      | Some (action, delay) \<Rightarrow>
          (let this1 = ChromeTransport_clearTimeout t this in
           case action of
             ConnectTimeoutTimer \<Rightarrow>
               (case connectRejecter this1 of
                  Some r \<Rightarrow> cleanupConnectionPromise
                              (connectReject r (Error ''Connection timeout'') this1)
                | None \<Rightarrow> this1)
           | ReconnectTimer \<Rightarrow> snd (ChromeTransport_connect channel this1)))"

text \<open>
  The automatic retries on their own: as long as a reconnect timer is pending, the
  earliest one set runs, against a channel that behaves as \<open>channel\<close> says. The fuel
  bounds the number of timers run.
\<close>

definition pendingReconnects :: "ChromeTransport \<Rightarrow> nat list" where
  "pendingReconnects this =
     map fst (filter (\<lambda>(t, action, delay). action = ReconnectTimer) (ct_timers this))"

fun runReconnects :: "nat \<Rightarrow> (Rejection + nat) \<Rightarrow> ChromeTransport \<Rightarrow> ChromeTransport" where
  "runReconnects 0 channel this = this"
| "runReconnects (Suc fuel) channel this =
     (case pendingReconnects this of
        [] \<Rightarrow> this
      | t # ts \<Rightarrow> runReconnects fuel channel (ChromeTransport_timerFired t channel this))"

definition scheduledDelays :: "ChromeTransport \<Rightarrow> real list" where
  "scheduledDelays this =
     concat (map (\<lambda>e. case e of SetTimeoutCalled t ReconnectTimer delay \<Rightarrow> [delay] | _ \<Rightarrow> [])
               (ct_trace this))"

definition channelOpens :: "ChromeTransport \<Rightarrow> nat" where
  "channelOpens this =
     length (filter (\<lambda>e. case e of RuntimeConnect x n \<Rightarrow> True | _ \<Rightarrow> False) (ct_trace this))"

definition portWrites :: "ChromeTransport \<Rightarrow> nat" where
  "portWrites this =
     length (filter (\<lambda>e. case e of PortPostMessage p m \<Rightarrow> True | _ \<Rightarrow> False) (ct_trace this))"

section \<open>NatsTransport (nats-transport.ts)\<close>

record NatsSubjects =
  requests :: string
  events :: string

record NatsTransportConfig =
  servers :: "string list"
  token :: "string option"
  user :: "string option"
  pass :: "string option"
  connectTimeout :: "nat option"
  subjects :: "NatsSubjects option"

record NatsMessage =
  nm_type :: string
  nm_payload :: "jsany option"
  nm_requestId :: "string option"
  nm_replyTo :: "string option"

datatype NatsEffect =
    NatsConnect "string list" nat
  | NatsSubscribe string
  | NatsUnsubscribe string
  | NatsClose nat
  | NatsPublish string "jsany option" "string option" "(string \<times> string) list"
  | MessageCallbackCalled string

record NatsTransport =
  nt_servers :: "string list"
  nt_connectTimeout :: nat
  nt_subjects :: NatsSubjects
  nats :: "nat option"
  hasMessageCallback :: bool
  subscriptions :: "string list"
  connected :: bool
  connecting :: bool
  nt_trace :: "NatsEffect list"

definition newNatsTransport :: "NatsTransportConfig \<Rightarrow> NatsTransport" where
  "newNatsTransport cfg =
     \<lparr>nt_servers = servers cfg,
      nt_connectTimeout = orDefault (connectTimeout cfg) 10000,
      nt_subjects =
        \<lparr>requests = orElse (map_option requests (subjects cfg)) ''messaging.requests'',
         events = orElse (map_option events (subjects cfg)) ''messaging.events''\<rparr>,
      nats = None, hasMessageCallback = False, subscriptions = [],
      connected = False, connecting = False, nt_trace = []\<rparr>"

text \<open>
  \<^verbatim>\<open>connect\<close> is asynchronous: it runs up to \<^verbatim>\<open>await connect(connectionOptions)\<close>
  and is resumed with the outcome. \<open>NatsTransport_connect\<close> is the part before the
  await; it finishes at once (\<open>Settled\<close>) or suspends (\<open>Awaiting\<close>).
  \<open>NatsTransport_connect_resume\<close> is the rest, given the connection (\<^const>\<open>Inr\<close>)
  or the error (\<^const>\<open>Inl\<close>) of the NATS client.
\<close>

datatype ConnectStep = Settled "Rejection + unit" | Awaiting

definition NatsTransport_connect :: "NatsTransport \<Rightarrow> ConnectStep \<times> NatsTransport" where
  "NatsTransport_connect this =
     (if connected this then (Settled (Inr ()), this)
      else if connecting this then (Settled (Inl (Error ''Connection already in progress'')), this)
      else (Awaiting,
            this\<lparr>connecting := True,
                 nt_trace := nt_trace this @ [NatsConnect (nt_servers this) (nt_connectTimeout this)]\<rparr>))"

definition setupSubscriptions :: "NatsTransport \<Rightarrow> NatsTransport" where
  "setupSubscriptions this =
     (case nats this of
        None \<Rightarrow> this
      | Some c \<Rightarrow>
          (let eventsSubject = events (nt_subjects this) @ ''.*'' in
           this\<lparr>subscriptions := subscriptions this @ [''>'', eventsSubject],
                nt_trace := nt_trace this @ [NatsSubscribe ''>'', NatsSubscribe eventsSubject]\<rparr>))"

definition NatsTransport_connect_resume ::
  "(Rejection + nat) \<Rightarrow> NatsTransport \<Rightarrow> (Rejection + unit) \<times> NatsTransport" where
  "NatsTransport_connect_resume outcome this =
     (case outcome of
        Inl err \<Rightarrow> (Inl err, this\<lparr>connecting := False\<rparr>)
      | Inr connection \<Rightarrow>
          (Inr (), (setupSubscriptions (this\<lparr>nats := Some connection\<rparr>))
                     \<lparr>connected := True, connecting := False\<rparr>))"

text \<open>The status watcher on a \<^verbatim>\<open>disconnect\<close> status.\<close>

definition statusDisconnect :: "NatsTransport \<Rightarrow> NatsTransport" where
  "statusDisconnect this =
     (let this1 = this\<lparr>connected := False\<rparr> in
      if hasMessageCallback this1
      then this1\<lparr>nt_trace := nt_trace this1 @ [MessageCallbackCalled ''system:disconnected'']\<rparr>
      else this1)"

definition NatsTransport_disconnect :: "NatsTransport \<Rightarrow> NatsTransport" where
  "NatsTransport_disconnect this =
     (let this1 = this\<lparr>nt_trace := nt_trace this @ map NatsUnsubscribe (subscriptions this),
                       subscriptions := []\<rparr>
      in case nats this1 of
           Some c \<Rightarrow> this1\<lparr>nt_trace := nt_trace this1 @ [NatsClose c], nats := None,
                          connected := False\<rparr>
         | None \<Rightarrow> this1)"

text \<open>
  \<^verbatim>\<open>send\<close>. \<open>publishOutcome\<close> is the error of \<^verbatim>\<open>await this.nats.publish(...)\<close>, if
  it is called and fails.
\<close>

definition NatsTransport_send ::
  "NatsMessage \<Rightarrow> Rejection option \<Rightarrow> NatsTransport \<Rightarrow> (Rejection + unit) \<times> NatsTransport" where
  "NatsTransport_send message publishOutcome this =
     (if nats this = None \<or> \<not> connected this
      then (Inl (Error ''Transport not connected''), this)
      else
        (let messageHeaders = (if truthy (nm_requestId message)
                               then [(''requestId'', the (nm_requestId message))] else []);
             effect =
               (if startsWith (nm_type message) ''event:''
                then NatsPublish (events (nt_subjects this) @ ''.'' @ drop 6 (nm_type message))
                       (nm_payload message) None messageHeaders
                else NatsPublish (requests (nt_subjects this) @ ''.'' @ nm_type message)
                       (nm_payload message) (Some (orElse (nm_replyTo message) ''''))
                       messageHeaders)
         in (case publishOutcome of None \<Rightarrow> Inr () | Some err \<Rightarrow> Inl err,
             this\<lparr>nt_trace := nt_trace this @ [effect]\<rparr>)))"

definition natsOpens :: "NatsTransport \<Rightarrow> nat" where
  "natsOpens this =
     length (filter (\<lambda>e. case e of NatsConnect s t \<Rightarrow> True | _ \<Rightarrow> False) (nt_trace this))"

definition natsWrites :: "NatsTransport \<Rightarrow> nat" where
  "natsWrites this =
     length (filter (\<lambda>e. case e of NatsPublish s p r h \<Rightarrow> True | _ \<Rightarrow> False) (nt_trace this))"

section \<open>Runs of a ChromeExtensionTransport\<close>

text \<open>
  What can happen to a transport, one event at a time: the application sends,
  registers or removes a handler, broadcasts or closes; Chrome delivers an inbound
  message or invokes the callback of an earlier \<^verbatim>\<open>sendMessage\<close>; time passes.
\<close>

datatype Event =
    EvSend Message "MessageContext option" "Rejection option"
  | EvIncoming "WrappedMessage option" MessageSender
  | EvSendCallback SendCallback "string option option" "WrappedMessage option"
  | EvAdvance nat
  | EvOnMessage string nat
  | EvOffMessage string
  | EvBroadcast Message "Rejection + Tab list" "nat \<Rightarrow> Delivery" Delivery
  | EvClose

text \<open>
  The callbacks that were handed to Chrome; Chrome invokes no others. A call that
  threw has not handed its callback over.
\<close>

definition callbacksOf :: "Effect list \<Rightarrow> SendCallback list" where
  "callbacksOf tr =
     concat (map (\<lambda>e. case e of TabsSendMessage i w (Some cb) \<Rightarrow> [cb]
                          | RuntimeSendMessage w (Some cb) \<Rightarrow> [cb]
                          | _ \<Rightarrow> []) tr)"

fun step :: "Event \<Rightarrow> ChromeExtensionTransport \<Rightarrow> ChromeExtensionTransport" where
  "step (EvSend m c thrown) s = snd (send m c thrown s)"
| "step (EvIncoming w sd) s = snd (handleIncomingMessage s w sd)"
| "step (EvSendCallback cb le r) s =
     (if cb \<in> set (callbacksOf (trace s)) then sendCallback cb le r s else s)"
| "step (EvAdvance t) s = advanceTo t s"
| "step (EvOnMessage ty h) s = onMessage ty h s"
| "step (EvOffMessage ty) s = offMessage ty s"
| "step (EvBroadcast m q dl rd) s = snd (broadcast m q dl rd s)"
| "step EvClose s = close s"

definition run :: "Event list \<Rightarrow> ChromeExtensionTransport \<Rightarrow> ChromeExtensionTransport" where
  "run evs s = fold step evs s"

text \<open>An envelope that carries a response with correlation id \<open>cid\<close>.\<close>

definition isResponseFor :: "string \<Rightarrow> WrappedMessage \<Rightarrow> bool" where
  "isResponseFor cid w =
     (case w_data w of
        None \<Rightarrow> False
      | Some d \<Rightarrow> msg_type d = ''response'' \<and> correlationId d = Some cid)"

text \<open>
  The events that leave the request with promise \<open>p\<close> and correlation id \<open>cid\<close>
  unanswered before \<open>due\<close>: no response with that correlation id arrives, the
  request's own \<^verbatim>\<open>sendMessage\<close> callback reports neither an error nor a response,
  the clock stays before \<open>due\<close>, and the transport is not closed.
\<close>

fun quiet :: "nat \<Rightarrow> string \<Rightarrow> nat \<Rightarrow> Event \<Rightarrow> bool" where
  "quiet p cid due (EvIncoming (Some w) sd) = (\<not> isResponseFor cid w)"
| "quiet p cid due (EvSendCallback cb le r) = (cb_promise cb \<noteq> p \<or> (le = None \<and> r = None))"
| "quiet p cid due (EvAdvance t) = (t < due)"
| "quiet p cid due EvClose = False"
| "quiet p cid due ev = True"

text \<open>
  The invariant of the identifiers: a timer handle is the successor of the promise
  its closure rejects, and every identifier in use is below \<open>nextId\<close>.
\<close>

definition wf :: "ChromeExtensionTransport \<Rightarrow> bool" where
  "wf s \<longleftrightarrow>
     distinct (map fst (timers s))
     \<and> (\<forall>(t, c) \<in> set (timers s). t = Suc (tc_promise c) \<and> t < nextId s)
     \<and> (\<forall>(k, h) \<in> set (responseHandlers s).
           rh_timeout h = Suc (rh_promise h) \<and> rh_timeout h < nextId s)
     \<and> (\<forall>cb \<in> set (callbacksOf (trace s)).
           cb_timeout cb = Suc (cb_promise cb) \<and> cb_timeout cb < nextId s)
     \<and> (\<forall>(q, st) \<in> set (promises s). q < nextId s)"

text \<open>
  The request with promise \<open>p\<close> is outstanding: its timer is armed, its promise is
  pending, and no entry under another correlation id refers to its promise.
\<close>

definition pendingReq :: "nat \<Rightarrow> string \<Rightarrow> string \<Rightarrow> nat \<Rightarrow> ChromeExtensionTransport \<Rightarrow> bool" where
  "pendingReq p cid ty due s \<longleftrightarrow>
     map_of (timers s) (Suc p)
       = Some \<lparr>tc_correlationId = cid, tc_promise = p, tc_type = ty, tc_due = due\<rparr>
     \<and> map_of (promises s) p = Some Pending
     \<and> (\<forall>(k, h) \<in> set (responseHandlers s). rh_promise h = p \<longrightarrow> k = cid)"

text \<open>The calls of the \<^verbatim>\<open>resolve\<close>/\<^verbatim>\<open>reject\<close> pair of promise \<open>p\<close> in a trace.\<close>

definition settleCalls :: "nat \<Rightarrow> Effect list \<Rightarrow> Effect list" where
  "settleCalls p tr =
     filter (\<lambda>e. case e of ResolveCalled q v \<Rightarrow> q = p | RejectCalled q r \<Rightarrow> q = p
                  | _ \<Rightarrow> False) tr"

text \<open>The calls of the channel's write primitives in a trace, those that threw included.\<close>

definition channelWrites :: "Effect list \<Rightarrow> Effect list" where
  "channelWrites tr =
     filter (\<lambda>e. case e of TabsSendMessage i w c \<Rightarrow> True | RuntimeSendMessage w c \<Rightarrow> True
                  | SendMessageThrew i w x \<Rightarrow> True | _ \<Rightarrow> False) tr"

text \<open>
  The tabs a broadcast called \<^verbatim>\<open>chrome.tabs.sendMessage\<close> for, in order, a call that
  threw included.
\<close>

definition broadcastRecipients :: "Effect list \<Rightarrow> nat list" where
  "broadcastRecipients tr =
     concat (map (\<lambda>e. case e of TabsSendMessage i w None \<Rightarrow> [i]
                          | SendMessageThrew (Some i) w x \<Rightarrow> [i] | _ \<Rightarrow> []) tr)"

section \<open>Runs of a ChromeTransport\<close>

text \<open>
  What can happen to a ChromeTransport between two of its (synchronous) methods:
  the application connects, disconnects or sends; the port reports its disconnection;
  a timer of the host runs.
\<close>

datatype PortEvent =
    PortConnect "Rejection + nat"
  | PortDisconnectCall
  | PortSend PortMessage "Rejection option"
  | PortDisconnected
  | PortTimer nat "Rejection + nat"

fun ChromeTransport_step :: "PortEvent \<Rightarrow> ChromeTransport \<Rightarrow> ChromeTransport" where
  "ChromeTransport_step (PortConnect channel) ct = snd (ChromeTransport_connect channel ct)"
| "ChromeTransport_step PortDisconnectCall ct = ChromeTransport_disconnect ct"
| "ChromeTransport_step (PortSend m postOutcome) ct = snd (ChromeTransport_send m postOutcome ct)"
| "ChromeTransport_step PortDisconnected ct = handleDisconnection ct"
| "ChromeTransport_step (PortTimer t channel) ct = ChromeTransport_timerFired t channel ct"

definition ChromeTransport_run :: "PortEvent list \<Rightarrow> ChromeTransport \<Rightarrow> ChromeTransport" where
  "ChromeTransport_run evs ct = fold ChromeTransport_step evs ct"

text \<open>A connection attempt is in progress: the stored connect promise is still pending.\<close>

definition connectInProgress :: "ChromeTransport \<Rightarrow> bool" where
  "connectInProgress ct =
     (case connectPromise ct of
        None \<Rightarrow> False
      | Some p \<Rightarrow> map_of (ct_promises ct) p = Some Pending)"

section \<open>Concrete inputs\<close>

definition popupConfig :: ChromeExtensionTransportConfig where
  "popupConfig =
     \<lparr>componentType = Popup, targetTabId = None, handleResponses = None,
      cfg_namespace = None\<rparr>"

definition backgroundConfig :: ChromeExtensionTransportConfig where
  "backgroundConfig =
     \<lparr>componentType = Background, targetTabId = None, handleResponses = None,
      cfg_namespace = None\<rparr>"

definition settingsGet :: Message where
  "settingsGet =
     \<lparr>message_id = ''a1'', message_type = ''settings:get'', message_payload = Some ''theme'',
      message_correlationId = None\<rparr>"

definition uiShow :: Message where
  "uiShow =
     \<lparr>message_id = ''a2'', message_type = ''ui:show'', message_payload = None,
      message_correlationId = None\<rparr>"

definition someSender :: MessageSender where
  "someSender =
     \<lparr>sender_url = Some ''chrome-extension://abc/popup.html'', sender_id = Some ''abc'',
      sender_tab_id = None, sender_frameId = None\<rparr>"

definition responseTo :: "string \<Rightarrow> string \<Rightarrow> WrappedMessage" where
  "responseTo ns cid =
     \<lparr>w_namespace = Some ns, w_componentType = Some ''background'',
      w_data = Some \<lparr>msg_id = ''r'', msg_type = ''response'', payload = Some ''dark'',
                     msg_timestamp = None, correlationId = Some cid, msg_error = None\<rparr>,
      w_action = None\<rparr>"

text \<open>The popup transport created at time 5 with two requests outstanding.\<close>

definition twoPending :: ChromeExtensionTransport where
  "twoPending = run [EvSend settingsGet None None, EvSend uiShow None None]
                  (newChromeExtensionTransport popupConfig 5)"

text \<open>Events that leave the request \<open>a1\<close> unanswered.\<close>

definition quietEvents :: "Event list" where
  "quietEvents =
     [EvOnMessage ''ui:show'' 7, EvSend uiShow None None, EvAdvance 20000,
      EvIncoming (Some (responseTo ''magicbutton'' ''a2'')) someSender,
      EvOffMessage ''ui:show'']"

text \<open>
  The callback that \<^verbatim>\<open>sendViaRuntime\<close> hands to Chrome for the first request of a new
  transport, and for the second.
\<close>

definition firstCallback :: SendCallback where
  "firstCallback =
     \<lparr>cb_kind = ViaRuntime, cb_correlationId = ''a1'', cb_timeout = 1, cb_promise = 0\<rparr>"

definition secondCallback :: SendCallback where
  "secondCallback =
     \<lparr>cb_kind = ViaRuntime, cb_correlationId = ''a2'', cb_timeout = 3, cb_promise = 2\<rparr>"

text \<open>One request that times out, and whose \<^verbatim>\<open>sendMessage\<close> callback then delivers a response.\<close>

definition lateCallbackRun :: "Event list" where
  "lateCallbackRun =
     [EvSend settingsGet None None, EvAdvance 30005,
      EvSendCallback firstCallback None (Some (responseTo ''magicbutton'' ''a1''))]"

text \<open>
  Runs in which no response message arrives: the transport is closed; the callback
  reports \<^verbatim>\<open>chrome.runtime.lastError\<close>; the \<^verbatim>\<open>sendMessage\<close> call throws.
\<close>

definition closedRun :: "Event list" where
  "closedRun = [EvSend settingsGet None None, EvClose, EvAdvance 40000]"

definition lastErrorRun :: "Event list" where
  "lastErrorRun =
     [EvSend settingsGet None None, EvSendCallback firstCallback (Some None) None,
      EvAdvance 40000]"

definition contextInvalidated :: Rejection where
  "contextInvalidated = Error ''Extension context invalidated.''"

definition thrownRun :: "Event list" where
  "thrownRun = [EvSend settingsGet None (Some contextInvalidated), EvAdvance 40000]"

text \<open>
  A request whose id is the empty string, on a transport that has a handler for the
  message type \<^verbatim>\<open>response\<close>, after its timeout.
\<close>

definition emptyIdMessage :: Message where
  "emptyIdMessage =
     \<lparr>message_id = [], message_type = ''settings:get'', message_payload = None,
      message_correlationId = None\<rparr>"

definition emptyIdRun :: "Event list" where
  "emptyIdRun = [EvOnMessage ''response'' 7, EvSend emptyIdMessage None None, EvAdvance 40000]"

definition threeTabs :: "Tab list" where
  "threeTabs = [\<lparr>tab_id = Some 1\<rparr>, \<lparr>tab_id = Some 2\<rparr>, \<lparr>tab_id = Some 3\<rparr>]"

definition secondTabRejects :: "nat \<Rightarrow> Delivery" where
  "secondTabRejects i =
     (if i = 2 then RejectsLater (Error ''Could not establish connection'') else Delivered)"

definition secondTabThrows :: "nat \<Rightarrow> Delivery" where
  "secondTabThrows i =
     (if i = 2 then ThrowsNow (Error ''Extension context invalidated.'') else Delivered)"

definition backoffConfig :: ChromeTransportConfig where
  "backoffConfig =
     \<lparr>extensionId = None, connectionName = ''popup-client'', cfg_reconnect = Some True,
      cfg_reconnectOptions = Some \<lparr>maxRetries = 3, backoffFactor = 2, initialDelayMs = 100\<rparr>,
      cfg_connectTimeoutMs = None\<rparr>"

definition channelDown :: "Rejection + nat" where
  "channelDown = Inl (Error ''Could not establish connection'')"

definition channelUp :: "Rejection + nat" where
  "channelUp = Inr 1"

definition natsConnectionUp :: "Rejection + nat" where
  "natsConnectionUp = Inr 1"

definition natsConfig :: NatsTransportConfig where
  "natsConfig =
     \<lparr>servers = [''nats://localhost:4222''], token = None, user = None, pass = None,
      connectTimeout = None, subjects = None\<rparr>"

definition testRequest :: NatsMessage where
  "testRequest =
     \<lparr>nm_type = ''testRequest'', nm_payload = Some ''data'', nm_requestId = Some ''123'',
      nm_replyTo = None\<rparr>"

definition portRequest :: PortMessage where
  "portRequest = \<lparr>pm_type = ''testRequest'', pm_payload = Some ''data'', pm_requestId = Some ''123''\<rparr>"

definition contentScenarioConfig :: ExtensionAuthorizationProviderConfig where
  "contentScenarioConfig =
     \<lparr>permissions = Some [(''content'',
         \<lparr>canHandle = [''page:*''], canSend = [''page:*'', ''settings:get''],
          canBroadcast = False\<rparr>)],
      allowUndefinedMessages = None, enforceContentScriptOrigins = None,
      contentScriptOriginPermissions = None\<rparr>"

definition contentActor :: MessageContext where
  "contentActor =
     \<lparr>source = Some ''https://example.com/page'', timestamp = None, user_id = None,
      user_roles = Some [''content''], meta_tabId = None, meta_frameId = None,
      meta_componentType = None\<rparr>"

section \<open>Properties of the permission matcher\<close>

lemma endsWith_colon_star: "endsWith p '':*'' \<longleftrightarrow> (\<exists>pre. p = pre @ '':*'')"
  by (auto simp: endsWith_def suffix_def)

lemma slice_colon_star: "slice_0_minus1 (pre @ '':*'') = pre @ '':''"
  by (simp add: slice_0_minus1_def butlast_append)

lemma isMessageAllowed_iff:
  "isMessageAllowed t ps \<longleftrightarrow>
     ''*'' \<in> set ps \<or> t \<in> set ps \<or> (\<exists>pre. pre @ '':*'' \<in> set ps \<and> prefix (pre @ '':'') t)"
proof -
  have "list_ex (\<lambda>p. if endsWith p '':*'' then startsWith t (slice_0_minus1 p) else False) ps
          \<longleftrightarrow> (\<exists>pre. pre @ '':*'' \<in> set ps \<and> prefix (pre @ '':'') t)"
    (is "?L \<longleftrightarrow> ?R")
  proof
    assume ?L
    then obtain p where p: "p \<in> set ps" "endsWith p '':*''" "startsWith t (slice_0_minus1 p)"
      by (auto simp: list_ex_iff split: if_splits)
    from p(2) obtain pre where "p = pre @ '':*''"
      by (auto simp: endsWith_colon_star)
    with p show ?R
      by (auto simp: slice_colon_star startsWith_def)
  next
    assume ?R
    then obtain pre where "pre @ '':*'' \<in> set ps" "prefix (pre @ '':'') t"
      by blast
    then show ?L
      unfolding list_ex_iff
      by (intro bexI[of _ "pre @ '':*''"])
         (auto simp: endsWith_colon_star slice_colon_star startsWith_def)
  qed
  then show ?thesis
    by (auto simp: isMessageAllowed_def array_includes_def some_def)
qed

lemma isMessageAllowed_examples:
  "isMessageAllowed ''settings:get'' [''settings:*'']"
  "isMessageAllowed ''settings:update'' [''settings:*'']"
  "\<not> isMessageAllowed ''page:read'' [''settings:*'']"
  by code_simp+

text \<open>
  Claim C6. The pattern check allows a message type exactly when the list holds the
  literal \<open>*\<close>, or the type itself, or a pattern \<open>pre:*\<close> such that the type begins
  with \<open>pre:\<close>. For a single pattern this leaves the three forms and no other
  wildcard form; a pattern \<open>pre:*\<close> alone allows exactly the types beginning with
  \<open>pre:\<close>. The list \<open>[settings:*]\<close> allows \<open>settings:get\<close> and \<open>settings:update\<close>
  and rejects \<open>page:read\<close>, and \<open>[*]\<close> allows every type.
\<close>

theorem isMessageAllowed_pattern_rules:
  "(isMessageAllowed t ps \<longleftrightarrow>
      ''*'' \<in> set ps \<or> t \<in> set ps
      \<or> (\<exists>pre. pre @ '':*'' \<in> set ps \<and> startsWith t (pre @ '':'')))
   \<and> (isMessageAllowed t [p] \<longleftrightarrow>
      p = ''*'' \<or> t = p \<or> (\<exists>pre. p = pre @ '':*'' \<and> startsWith t (pre @ '':'')))
   \<and> (isMessageAllowed t [pre @ '':*''] \<longleftrightarrow> startsWith t (pre @ '':''))
   \<and> isMessageAllowed ''settings:get'' [''settings:*'']
   \<and> isMessageAllowed ''settings:update'' [''settings:*'']
   \<and> \<not> isMessageAllowed ''page:read'' [''settings:*'']
   \<and> isMessageAllowed t [''*'']"
proof -
  have gen: "\<And>t ps. isMessageAllowed t ps \<longleftrightarrow>
      ''*'' \<in> set ps \<or> t \<in> set ps
      \<or> (\<exists>pre. pre @ '':*'' \<in> set ps \<and> startsWith t (pre @ '':''))"
    by (simp add: isMessageAllowed_iff startsWith_def)
  have single: "isMessageAllowed t [p] \<longleftrightarrow>
      p = ''*'' \<or> t = p \<or> (\<exists>pre. p = pre @ '':*'' \<and> startsWith t (pre @ '':''))"
    unfolding gen by auto
  have fam: "isMessageAllowed t [pre @ '':*''] \<longleftrightarrow> startsWith t (pre @ '':'')"
    unfolding gen by (auto simp: startsWith_def)
  have star: "isMessageAllowed t [''*'']"
    unfolding gen by simp
  from gen single fam star isMessageAllowed_examples show ?thesis
    by blast
qed

theorem isMessageAllowed_pattern_rules_witness:
  "isMessageAllowed ''page:read'' [''settings:get'', ''page:*'']
   \<and> \<not> isMessageAllowed ''page:read''
         [''settings:get'', ''ui:*'', ''page*'', ''*:read'', ''pa*'']
   \<and> isMessageAllowed ''anything'' [''*'']"
  using isMessageAllowed_pattern_rules
          [of "''page:read''" "[''settings:get'', ''page:*'']" "''x''" "''page''"]
        isMessageAllowed_pattern_rules
          [of "''page:read''" "[''settings:get'', ''ui:*'', ''page*'', ''*:read'', ''pa*'']"
              "''x''" "''page''"]
        isMessageAllowed_pattern_rules [of "''anything''" "[]" "''x''" "''page''"]
  by (auto simp: startsWith_def)

lemma checkPermission_role_send:
  assumes "map_of (config_permissions this) (componentTypeOf context) = Some perms"
    and "config_contentScriptOriginPermissions this = []"
    and "\<not> startsWith messageType ''request:''"
  shows "checkPermission regExpTest this messageType context False
           = Returns
               (if isMessageAllowed messageType (canSend perms)
                then \<lparr>isAuthorized = True, error = None\<rparr>
                else \<lparr>isAuthorized = False,
                      error = Some (''Component type '' @ componentTypeOf context
                               @ '' is not allowed to send message type: '' @ messageType)\<rparr>)"
  using assms by (simp add: checkPermission_def readProperty_def Let_def)

text \<open>
  Claim C7. A provider is built from a configuration whose \<open>content\<close> entry has
  \<open>canSend = [page:*, settings:get]\<close> and that configures no origin overrides. For an
  actor whose component type is \<open>content\<close>, the send check (not a broadcast) of
  \<open>settings:update\<close> returns a result that is not authorized (with the reason naming
  the component type and the message type), and the send check of \<open>page:read\<close>
  returns the authorized result.
\<close>

theorem checkPermission_content_scenario:
  assumes "permissions cfg = Some ps"
    and "map_of ps ''content'' = Some perms"
    and "canSend perms = [''page:*'', ''settings:get'']"
    and "contentScriptOriginPermissions cfg = None
         \<or> contentScriptOriginPermissions cfg = Some []"
    and "componentTypeOf context = ''content''"
  shows "checkPermission regExpTest (constructor cfg) ''settings:update'' context False
           = Returns
               \<lparr>isAuthorized = False,
                error = Some ''Component type content is not allowed to send message type: settings:update''\<rparr>
       \<and> checkPermission regExpTest (constructor cfg) ''page:read'' context False
           = Returns \<lparr>isAuthorized = True, error = None\<rparr>"
proof -
  have a: "\<not> isMessageAllowed ''settings:update'' [''page:*'', ''settings:get'']"
    by code_simp
  have b: "isMessageAllowed ''page:read'' [''page:*'', ''settings:get'']"
    by code_simp
  have c: "\<not> startsWith ''settings:update'' ''request:''"
          "\<not> startsWith ''page:read'' ''request:''"
    by (simp_all add: startsWith_def)
  have p: "map_of (config_permissions (constructor cfg)) (componentTypeOf context)
             = Some perms"
    using assms(1,2,5) by (simp add: constructor_def)
  have q: "config_contentScriptOriginPermissions (constructor cfg) = []"
    using assms(4) by (auto simp: constructor_def)
  show ?thesis
    using checkPermission_role_send[OF p q c(1)] checkPermission_role_send[OF p q c(2)]
          a b assms(3,5)
    by simp
qed

theorem checkPermission_content_scenario_witness:
  "permissions contentScenarioConfig = Some [(''content'',
         \<lparr>canHandle = [''page:*''], canSend = [''page:*'', ''settings:get''],
          canBroadcast = False\<rparr>)]
   \<and> componentTypeOf contentActor = ''content''
   \<and> checkPermission (\<lambda>p s. False) (constructor contentScenarioConfig)
         ''settings:update'' contentActor False
       = Returns
           \<lparr>isAuthorized = False,
            error = Some ''Component type content is not allowed to send message type: settings:update''\<rparr>
   \<and> checkPermission (\<lambda>p s. False) (constructor contentScenarioConfig)
         ''page:read'' contentActor False
       = Returns \<lparr>isAuthorized = True, error = None\<rparr>"
proof -
  have 1: "permissions contentScenarioConfig = Some [(''content'',
         \<lparr>canHandle = [''page:*''], canSend = [''page:*'', ''settings:get''],
          canBroadcast = False\<rparr>)]"
    by (simp add: contentScenarioConfig_def)
  have 2: "map_of [(''content'',
         \<lparr>canHandle = [''page:*''], canSend = [''page:*'', ''settings:get''],
          canBroadcast = False\<rparr>)] ''content'' = Some
         \<lparr>canHandle = [''page:*''], canSend = [''page:*'', ''settings:get''],
          canBroadcast = False\<rparr>"
    by simp
  have 3: "canSend \<lparr>canHandle = [''page:*''], canSend = [''page:*'', ''settings:get''],
          canBroadcast = False\<rparr> = [''page:*'', ''settings:get'']"
    by simp
  have 4: "contentScriptOriginPermissions contentScenarioConfig = None
         \<or> contentScriptOriginPermissions contentScenarioConfig = Some []"
    by (simp add: contentScenarioConfig_def)
  have 5: "componentTypeOf contentActor = ''content''"
    by (simp add: componentTypeOf_def contentActor_def)
  from checkPermission_content_scenario[OF 1 2 3 4 5, of "\<lambda>p s. False"] 1 5
  show ?thesis by blast
qed

section \<open>Properties of the ChromeExtensionTransport\<close>

subsection \<open>Association lists, promises, traces\<close>

lemma set_alist_update: "set (AList.update k v al) \<subseteq> insert (k, v) (set al)"
  by (induction al) auto

lemma set_alist_delete: "set (AList.delete k al) \<subseteq> set al"
  by (auto simp: AList.delete_eq)

lemma map_of_settle:
  "map_of (settle q st ps) p =
     (if p = q \<and> map_of ps p = Some Pending then Some st else map_of ps p)"
  by (auto simp: settle_def AList.update_conv' split: option.splits PromiseState.splits)

lemma settle_keys:
  assumes "(q, st) \<in> set (settle p outcome ps)"
  shows "q \<in> fst ` set ps"
proof (cases "map_of ps p = Some Pending")
  case True
  then have "(p, Pending) \<in> set ps" by (rule map_of_SomeD)
  then have "p \<in> fst ` set ps" by force
  moreover from True assms have "(q, st) \<in> insert (p, outcome) (set ps)"
    using set_alist_update[of p outcome ps] by (auto simp: settle_def)
  ultimately show ?thesis by force
next
  case False
  with assms have "(q, st) \<in> set ps"
    by (auto simp: settle_def split: option.splits PromiseState.splits)
  then show ?thesis by force
qed

lemma callbacksOf_append [simp]: "callbacksOf (xs @ ys) = callbacksOf xs @ callbacksOf ys"
  by (simp add: callbacksOf_def)

lemma callbacksOf_simps [simp]:
  "callbacksOf [] = []"
  "callbacksOf (ResolveCalled p v # tr) = callbacksOf tr"
  "callbacksOf (RejectCalled p e # tr) = callbacksOf tr"
  "callbacksOf (HandlerInvoked h pl c # tr) = callbacksOf tr"
  "callbacksOf (SendMessageThrew ti w x # tr) = callbacksOf tr"
  "callbacksOf (SendResponse w # tr) = callbacksOf tr"
  "callbacksOf (OnMessageAddListener # tr) = callbacksOf tr"
  "callbacksOf (OnConnectAddListener # tr) = callbacksOf tr"
  "callbacksOf (OnMessageRemoveListener # tr) = callbacksOf tr"
  "callbacksOf (TabsSendMessage i w None # tr) = callbacksOf tr"
  "callbacksOf (RuntimeSendMessage w None # tr) = callbacksOf tr"
  "callbacksOf (TabsSendMessage i w (Some cb) # tr) = cb # callbacksOf tr"
  "callbacksOf (RuntimeSendMessage w (Some cb) # tr) = cb # callbacksOf tr"
  by (simp_all add: callbacksOf_def)

lemma callbacksOf_forEachTab: "callbacksOf (fst (forEachTab w dl tabs)) = []"
  by (induction tabs) (auto split: Delivery.splits prod.splits)

subsection \<open>The identifier invariant is kept by every operation\<close>

lemma wf_promises_keys:
  assumes "wf s" "\<And>q st. (q, st) \<in> set ps \<Longrightarrow> q \<in> fst ` set (promises s)"
  shows "wf (s\<lparr>promises := ps\<rparr>)"
  using assms unfolding wf_def by fastforce

lemma wf_trace_noise:
  "wf s \<Longrightarrow> callbacksOf es = [] \<Longrightarrow> wf (s\<lparr>trace := trace s @ es\<rparr>)"
  by (auto simp: wf_def)

lemma wf_resolve: "wf s \<Longrightarrow> wf (resolve q v s)"
  unfolding resolve_def
  using wf_trace_noise[of "s\<lparr>promises := settle q (Fulfilled v) (promises s)\<rparr>" "[ResolveCalled q v]"]
        wf_promises_keys[of s "settle q (Fulfilled v) (promises s)"]
  by (auto dest: settle_keys)

lemma wf_reject: "wf s \<Longrightarrow> wf (reject q e s)"
  unfolding reject_def
  using wf_trace_noise[of "s\<lparr>promises := settle q (Rejected e) (promises s)\<rparr>" "[RejectCalled q e]"]
        wf_promises_keys[of s "settle q (Rejected e) (promises s)"]
  by (auto dest: settle_keys)

lemma wf_clearTimeout: "wf s \<Longrightarrow> wf (clearTimeout t s)"
  using set_alist_delete[of t "timers s"]
  by (auto simp: wf_def clearTimeout_def AList.distinct_delete)

lemma wf_delete_entry:
  "wf s \<Longrightarrow> wf (s\<lparr>responseHandlers := AList.delete k (responseHandlers s)\<rparr>)"
  using set_alist_delete[of k "responseHandlers s"]
  by (auto simp: wf_def)

lemma wf_now: "wf (s\<lparr>now := n\<rparr>) = wf s"
  by (simp add: wf_def)

lemma wf_handleIncomingMessage: "wf s \<Longrightarrow> wf (snd (handleIncomingMessage s w sd))"
  by (auto simp: handleIncomingMessage_def Let_def wf_trace_noise
        intro!: wf_resolve wf_reject wf_clearTimeout wf_delete_entry
        split: option.splits)

lemma wf_sendCallback: "wf s \<Longrightarrow> wf (sendCallback cb le r s)"
  by (auto simp: sendCallback_def Let_def
        intro!: wf_resolve wf_reject wf_clearTimeout wf_delete_entry
        split: option.splits)

lemma timeoutFired_unfold:
  "map_of (timers s) t = Some c \<Longrightarrow>
   timeoutFired t s =
     reject (tc_promise c) (Error (''Message timeout: '' @ tc_type c))
       (clearTimeout t
          (s\<lparr>responseHandlers := AList.delete (tc_correlationId c) (responseHandlers s)\<rparr>))"
  by (simp add: timeoutFired_def clearTimeout_def reject_def)

lemma wf_timeoutFired: "wf s \<Longrightarrow> wf (timeoutFired t s)"
proof (cases "map_of (timers s) t")
  case None
  then show "wf s \<Longrightarrow> ?thesis" by (simp add: timeoutFired_def)
next
  case (Some c)
  then show "wf s \<Longrightarrow> ?thesis"
    by (simp add: timeoutFired_unfold wf_reject wf_clearTimeout wf_delete_entry)
qed

lemma wf_fold_timeoutFired: "wf s \<Longrightarrow> wf (fold timeoutFired ts s)"
  by (induction ts arbitrary: s) (auto intro: wf_timeoutFired)

lemma wf_advanceTo: "wf s \<Longrightarrow> wf (advanceTo T s)"
  by (simp add: advanceTo_def wf_now wf_fold_timeoutFired)

lemma wf_sendWith:
  assumes "wf s"
  shows "wf (snd (sendWith kind tabId w d thrown s))"
proof -
  have t: "set (AList.update (Suc (nextId s)) c (timers s))
             \<subseteq> insert (Suc (nextId s), c) (set (timers s))" for c
    by (rule set_alist_update)
  have r: "set (AList.update k h (responseHandlers s))
             \<subseteq> insert (k, h) (set (responseHandlers s))" for k h
    by (rule set_alist_update)
  have q: "set (AList.update (nextId s) st (promises s))
             \<subseteq> insert (nextId s, st) (set (promises s))" for st
    by (rule set_alist_update)
  have 1: "distinct (map fst (timers (snd (sendWith kind tabId w d thrown s))))"
    using assms by (simp add: wf_def sendWith_def Let_def AList.distinct_update)
  have 2: "\<forall>(t, c) \<in> set (timers (snd (sendWith kind tabId w d thrown s))).
             t = Suc (tc_promise c) \<and> t < nextId (snd (sendWith kind tabId w d thrown s))"
    using assms t unfolding wf_def sendWith_def Let_def by fastforce
  have 3: "\<forall>(k, h) \<in> set (responseHandlers (snd (sendWith kind tabId w d thrown s))).
             rh_timeout h = Suc (rh_promise h)
             \<and> rh_timeout h < nextId (snd (sendWith kind tabId w d thrown s))"
    using assms r unfolding wf_def sendWith_def Let_def by fastforce
  have 4: "\<forall>cb \<in> set (callbacksOf (trace (snd (sendWith kind tabId w d thrown s)))).
             cb_timeout cb = Suc (cb_promise cb)
             \<and> cb_timeout cb < nextId (snd (sendWith kind tabId w d thrown s))"
    using assms unfolding wf_def sendWith_def Let_def
    by (cases thrown; cases kind) auto
  have 5: "\<forall>(q, st) \<in> set (promises (snd (sendWith kind tabId w d thrown s))).
             q < nextId (snd (sendWith kind tabId w d thrown s))"
    using assms q unfolding wf_def sendWith_def Let_def by fastforce
  from 1 2 3 4 5 show ?thesis
    unfolding wf_def by blast
qed

lemma send_cases:
  "\<exists>kind tabId w. send m ctx thrown s = sendWith kind tabId w
      \<lparr>msg_id = message_id m, msg_type = message_type m,
       payload = message_payload m, msg_timestamp = Some (now s),
       correlationId = message_correlationId m, msg_error = None\<rparr> thrown s"
  by (auto simp: send_def Let_def sendToTab_def sendViaRuntime_def)

lemma wf_send: "wf s \<Longrightarrow> wf (snd (send m ctx thrown s))"
  using send_cases[of m ctx thrown s] by (auto simp: wf_sendWith)

lemma wf_onMessage: "wf s \<Longrightarrow> wf (onMessage ty h s)"
  by (auto simp: wf_def onMessage_def)

lemma wf_offMessage: "wf s \<Longrightarrow> wf (offMessage ty s)"
  by (auto simp: wf_def offMessage_def)

lemma wf_broadcast: "wf s \<Longrightarrow> wf (snd (broadcast m q dl rd s))"
  using callbacksOf_forEachTab
  by (auto simp: broadcast_def Let_def wf_trace_noise
        split: ComponentType.splits sum.splits prod.splits Delivery.splits
        dest!: arg_cong[where f = fst])

lemma fold_clearTimeout_fields:
  "responseHandlers (fold (\<lambda>(cid, h). clearTimeout (rh_timeout h)) hs s) = responseHandlers s"
  "promises (fold (\<lambda>(cid, h). clearTimeout (rh_timeout h)) hs s) = promises s"
  "trace (fold (\<lambda>(cid, h). clearTimeout (rh_timeout h)) hs s) = trace s"
  "messageHandlers (fold (\<lambda>(cid, h). clearTimeout (rh_timeout h)) hs s) = messageHandlers s"
  "nextId (fold (\<lambda>(cid, h). clearTimeout (rh_timeout h)) hs s) = nextId s"
  "now (fold (\<lambda>(cid, h). clearTimeout (rh_timeout h)) hs s) = now s"
  by (induction hs arbitrary: s; simp add: clearTimeout_def split: prod.splits)+

lemma fold_clearTimeout_timers:
  "map_of (timers (fold (\<lambda>(cid, h). clearTimeout (rh_timeout h)) hs s)) t =
     (if t \<in> rh_timeout ` snd ` set hs then None else map_of (timers s) t)"
  by (induction hs arbitrary: s)
     (auto simp: clearTimeout_def AList.delete_conv' split: prod.splits)

lemma wf_fold_clearTimeout:
  "wf s \<Longrightarrow> wf (fold (\<lambda>(cid, h). clearTimeout (rh_timeout h)) hs s)"
  by (induction hs arbitrary: s) (auto intro: wf_clearTimeout)

lemma wf_close: "wf s \<Longrightarrow> wf (close s)"
proof -
  assume "wf s"
  then have "wf (fold (\<lambda>(cid, h). clearTimeout (rh_timeout h)) (responseHandlers s) s)"
    by (rule wf_fold_clearTimeout)
  then show ?thesis
    by (auto simp: close_def wf_def fold_clearTimeout_fields)
qed

lemma wf_new: "wf (newChromeExtensionTransport cfg clock)"
  by (simp add: wf_def newChromeExtensionTransport_def setupMessageListeners_def)

lemma wf_step: "wf s \<Longrightarrow> wf (step ev s)"
  by (cases ev)
     (simp_all add: wf_send wf_handleIncomingMessage wf_sendCallback wf_advanceTo
        wf_onMessage wf_offMessage wf_broadcast wf_close)

lemma wf_run: "wf s \<Longrightarrow> wf (run evs s)"
  unfolding run_def by (induction evs arbitrary: s) (auto intro: wf_step)

subsection \<open>An outstanding request stays outstanding while nothing answers it\<close>

lemma pr_trace: "pendingReq p cid ty due (s\<lparr>trace := tr\<rparr>) = pendingReq p cid ty due s"
  by (simp add: pendingReq_def)

lemma pr_now: "pendingReq p cid ty due (s\<lparr>now := n\<rparr>) = pendingReq p cid ty due s"
  by (simp add: pendingReq_def)

lemma pr_resolve:
  "q \<noteq> p \<Longrightarrow> pendingReq p cid ty due s \<Longrightarrow> pendingReq p cid ty due (resolve q v s)"
  by (simp add: pendingReq_def resolve_def map_of_settle)

lemma pr_reject:
  "q \<noteq> p \<Longrightarrow> pendingReq p cid ty due s \<Longrightarrow> pendingReq p cid ty due (reject q e s)"
  by (simp add: pendingReq_def reject_def map_of_settle)

lemma pr_clearTimeout:
  "t \<noteq> Suc p \<Longrightarrow> pendingReq p cid ty due s \<Longrightarrow> pendingReq p cid ty due (clearTimeout t s)"
  by (simp add: pendingReq_def clearTimeout_def)

lemma pr_delete_entry:
  "pendingReq p cid ty due s \<Longrightarrow>
   pendingReq p cid ty due (s\<lparr>responseHandlers := AList.delete k (responseHandlers s)\<rparr>)"
  using set_alist_delete[of k "responseHandlers s"]
  by (auto simp: pendingReq_def)

lemma entry_other:
  assumes "wf s" "pendingReq p cid ty due s" "map_of (responseHandlers s) k = Some h" "k \<noteq> cid"
  shows "rh_promise h \<noteq> p" "rh_timeout h \<noteq> Suc p"
proof -
  from assms(3) have m: "(k, h) \<in> set (responseHandlers s)" by (rule map_of_SomeD)
  with assms(2,4) show "rh_promise h \<noteq> p" by (auto simp: pendingReq_def)
  moreover from m assms(1) have "rh_timeout h = Suc (rh_promise h)" by (auto simp: wf_def)
  ultimately show "rh_timeout h \<noteq> Suc p" by simp
qed

lemma pr_handleIncomingMessage:
  assumes "wf s" "pendingReq p cid ty due s"
    and "\<And>m. w = Some m \<Longrightarrow> \<not> isResponseFor cid m"
  shows "pendingReq p cid ty due (snd (handleIncomingMessage s w sd))"
proof (cases w)
  case None
  then show ?thesis using assms(2) by (simp add: handleIncomingMessage_def)
next
  case (Some m)
  with assms(3) have nr: "\<not> isResponseFor cid m" by simp
  show ?thesis
  proof (cases "w_data m")
    case None
    with Some assms(2) show ?thesis by (simp add: handleIncomingMessage_def)
  next
    case (Some d)
    note d = this
    show ?thesis
    proof (cases "msg_type d = ''response'' \<and> truthy (correlationId d)")
      case False
      with \<open>w = Some m\<close> d assms(2) show ?thesis
        by (auto simp: handleIncomingMessage_def Let_def pr_trace split: option.splits)
    next
      case True
      then obtain k where k: "correlationId d = Some k"
        by (auto simp: truthy_def split: option.splits)
      with nr d True have kc: "k \<noteq> cid" by (auto simp: isResponseFor_def)
      show ?thesis
      proof (cases "map_of (responseHandlers s) k")
        case None
        with \<open>w = Some m\<close> d True k assms(2) show ?thesis
          by (auto simp: handleIncomingMessage_def Let_def)
      next
        case (Some h)
        from entry_other[OF assms(1,2) Some kc]
        have "rh_promise h \<noteq> p" "rh_timeout h \<noteq> Suc p" .
        with \<open>w = Some m\<close> d True k Some assms(2) show ?thesis
          by (auto simp: handleIncomingMessage_def Let_def
                intro!: pr_resolve pr_reject pr_clearTimeout pr_delete_entry)
      qed
    qed
  qed
qed

lemma pr_sendCallback:
  assumes "wf s" "pendingReq p cid ty due s" "cb \<in> set (callbacksOf (trace s))"
    and "cb_promise cb \<noteq> p \<or> (le = None \<and> r = None)"
  shows "pendingReq p cid ty due (sendCallback cb le r s)"
proof (cases "le = None \<and> r = None")
  case True
  with assms(2) show ?thesis by (simp add: sendCallback_def)
next
  case False
  with assms(4) have a: "cb_promise cb \<noteq> p" by blast
  from assms(1,3) have "cb_timeout cb = Suc (cb_promise cb)" by (auto simp: wf_def)
  with a have b: "cb_timeout cb \<noteq> Suc p" by simp
  from a b assms(2) show ?thesis
    by (auto simp: sendCallback_def Let_def
          intro!: pr_resolve pr_reject pr_clearTimeout pr_delete_entry
          split: option.splits)
qed

lemma pr_timeoutFired:
  assumes "wf s" "pendingReq p cid ty due s" "t \<noteq> Suc p"
  shows "pendingReq p cid ty due (timeoutFired t s)"
proof (cases "map_of (timers s) t")
  case None
  then show ?thesis using assms(2) by (simp add: timeoutFired_def)
next
  case (Some c)
  then have "(t, c) \<in> set (timers s)" by (rule map_of_SomeD)
  with assms(1) have "t = Suc (tc_promise c)" by (auto simp: wf_def)
  with assms(3) have "tc_promise c \<noteq> p" by auto
  with assms(2,3) Some show ?thesis
    by (simp add: timeoutFired_unfold pr_reject pr_clearTimeout pr_delete_entry)
qed

lemma fold_timeoutFired_inv:
  assumes "wf s" "pendingReq p cid ty due s" "Suc p \<notin> set ts"
  shows "wf (fold timeoutFired ts s) \<and> pendingReq p cid ty due (fold timeoutFired ts s)"
  using assms
proof (induction ts arbitrary: s)
  case Nil
  then show ?case by simp
next
  case (Cons t ts)
  from Cons.prems have "wf (timeoutFired t s)" "pendingReq p cid ty due (timeoutFired t s)"
    by (auto intro: wf_timeoutFired pr_timeoutFired)
  with Cons.IH[of "timeoutFired t s"] Cons.prems(3) show ?case by simp
qed

lemma dueTimers_set:
  "set (dueTimers T s) = {t. \<exists>c. (t, c) \<in> set (timers s) \<and> tc_due c \<le> T}"
  by (auto simp: dueTimers_def image_iff)

lemma not_due:
  assumes "wf s" "pendingReq p cid ty due s" "T < due"
  shows "Suc p \<notin> set (dueTimers T s)"
proof
  assume "Suc p \<in> set (dueTimers T s)"
  then obtain c where c: "(Suc p, c) \<in> set (timers s)" "tc_due c \<le> T"
    by (auto simp: dueTimers_set)
  from assms(1) have "distinct (map fst (timers s))" by (simp add: wf_def)
  with c(1) have "map_of (timers s) (Suc p) = Some c" by simp
  with assms(2) have "tc_due c = due" by (auto simp: pendingReq_def)
  with c(2) assms(3) show False by simp
qed

lemma pr_advanceTo:
  assumes "wf s" "pendingReq p cid ty due s" "T < due"
  shows "pendingReq p cid ty due (advanceTo T s)"
  using fold_timeoutFired_inv[OF assms(1,2) not_due[OF assms]]
  by (simp add: advanceTo_def pr_now)

lemma sendWith_promise: "fst (sendWith kind tabId w d thrown s) = nextId s"
  by (simp add: sendWith_def Let_def)

lemma fresh_timer: "wf s \<Longrightarrow> map_of (timers s) t = Some c \<Longrightarrow> t < nextId s"
  by (auto simp: wf_def dest!: map_of_SomeD)

lemma pr_sendWith_other:
  assumes "wf s" "pendingReq p cid ty due s"
  shows "pendingReq p cid ty due (snd (sendWith kind tabId w d thrown s))"
proof -
  from assms have lt: "Suc p < nextId s"
    by (auto simp: pendingReq_def dest: fresh_timer)
  have r: "set (AList.update k h (responseHandlers s))
             \<subseteq> insert (k, h) (set (responseHandlers s))" for k h
    by (rule set_alist_update)
  from assms(2) lt show ?thesis
    unfolding pendingReq_def sendWith_def Let_def
    apply (simp add: AList.update_conv')
    using r by fastforce
qed

lemma pr_sendWith_new:
  assumes "wf s"
  shows "pendingReq (nextId s) (msg_id d) (msg_type d) (now s + MESSAGE_TIMEOUT)
           (snd (sendWith kind tabId w d None s))"
proof -
  have r: "set (AList.update k h (responseHandlers s))
             \<subseteq> insert (k, h) (set (responseHandlers s))" for k h
    by (rule set_alist_update)
  have old: "(k, h) \<in> set (responseHandlers s) \<Longrightarrow> rh_promise h \<noteq> nextId s" for k h
    using assms by (auto simp: wf_def)
  show ?thesis
    unfolding pendingReq_def sendWith_def Let_def
    apply (simp add: AList.update_conv')
    using r old by fastforce
qed

lemma pr_send_other:
  "wf s \<Longrightarrow> pendingReq p cid ty due s \<Longrightarrow>
   pendingReq p cid ty due (snd (send m ctx thrown s))"
  using send_cases[of m ctx thrown s] by (auto simp: pr_sendWith_other)

lemma pr_send_new:
  assumes "wf s" "send m ctx None s = (p, s1)"
  shows "p = nextId s
         \<and> pendingReq p (message_id m) (message_type m) (now s + MESSAGE_TIMEOUT) s1"
proof -
  from send_cases[of m ctx None s] obtain kind tabId w where
    e: "send m ctx None s = sendWith kind tabId w
      \<lparr>msg_id = message_id m, msg_type = message_type m,
       payload = message_payload m, msg_timestamp = Some (now s),
       correlationId = message_correlationId m, msg_error = None\<rparr> None s" by blast
  from pr_sendWith_new[OF assms(1), of _ kind tabId w]
       sendWith_promise[of kind tabId w _ None s] e assms(2)
  show ?thesis
    by (metis TransportMessage.select_convs(1,2) fst_conv snd_conv)
qed

lemma pr_onMessage:
  "pendingReq p cid ty due s \<Longrightarrow> pendingReq p cid ty due (onMessage t h s)"
  by (auto simp: pendingReq_def onMessage_def)

lemma pr_offMessage:
  "pendingReq p cid ty due s \<Longrightarrow> pendingReq p cid ty due (offMessage t s)"
  by (auto simp: pendingReq_def offMessage_def)

lemma pr_broadcast:
  "pendingReq p cid ty due s \<Longrightarrow> pendingReq p cid ty due (snd (broadcast m q dl rd s))"
  by (auto simp: broadcast_def Let_def pr_trace
        split: ComponentType.splits sum.splits prod.splits Delivery.splits)

lemma pr_step:
  assumes "wf s" "pendingReq p cid ty due s" "quiet p cid due ev"
  shows "pendingReq p cid ty due (step ev s)"
proof (cases ev)
  case (EvSend m c thrown)
  with assms show ?thesis by (simp add: pr_send_other)
next
  case (EvIncoming w sd)
  with assms(3) have "\<And>m. w = Some m \<Longrightarrow> \<not> isResponseFor cid m" by auto
  with assms(1,2) EvIncoming show ?thesis by (simp add: pr_handleIncomingMessage)
next
  case (EvSendCallback cb le r)
  with assms show ?thesis by (auto intro: pr_sendCallback)
next
  case (EvAdvance T)
  with assms show ?thesis by (simp add: pr_advanceTo)
next
  case (EvOnMessage t h)
  with assms show ?thesis by (simp add: pr_onMessage)
next
  case (EvOffMessage t)
  with assms show ?thesis by (simp add: pr_offMessage)
next
  case (EvBroadcast m q dl rd)
  with assms show ?thesis by (simp add: pr_broadcast)
next
  case EvClose
  with assms show ?thesis by simp
qed

lemma pr_run:
  assumes "wf s" "pendingReq p cid ty due s" "\<forall>ev \<in> set evs. quiet p cid due ev"
  shows "wf (run evs s) \<and> pendingReq p cid ty due (run evs s)"
  using assms unfolding run_def
proof (induction evs arbitrary: s)
  case Nil
  then show ?case by simp
next
  case (Cons ev evs)
  from Cons.prems have "wf (step ev s)" "pendingReq p cid ty due (step ev s)"
    by (auto intro: wf_step pr_step)
  with Cons.IH[of "step ev s"] Cons.prems(3) show ?case by simp
qed

subsection \<open>Expiry of the timer\<close>

lemma timeoutFired_settled:
  "map_of (promises s) p = Some st \<Longrightarrow> st \<noteq> Pending \<Longrightarrow>
   map_of (promises (timeoutFired t s)) p = Some st"
  by (auto simp: timeoutFired_def reject_def map_of_settle split: option.splits)

lemma timeoutFired_gone:
  "map_of (responseHandlers s) k = None \<Longrightarrow>
   map_of (responseHandlers (timeoutFired t s)) k = None"
  by (auto simp: timeoutFired_def reject_def AList.delete_conv' split: option.splits)

lemma fold_timeoutFired_settled:
  "map_of (promises s) p = Some st \<Longrightarrow> st \<noteq> Pending \<Longrightarrow>
   map_of (responseHandlers s) k = None \<Longrightarrow>
   map_of (promises (fold timeoutFired ts s)) p = Some st
   \<and> map_of (responseHandlers (fold timeoutFired ts s)) k = None"
  by (induction ts arbitrary: s) (auto simp: timeoutFired_settled timeoutFired_gone)

lemma timeoutFired_own:
  assumes "pendingReq p cid ty due s"
  shows "map_of (promises (timeoutFired (Suc p) s)) p
           = Some (Rejected (Error (''Message timeout: '' @ ty)))
         \<and> map_of (responseHandlers (timeoutFired (Suc p) s)) cid = None"
  using assms
  by (auto simp: pendingReq_def timeoutFired_def reject_def map_of_settle AList.delete_conv')

lemma is_due:
  assumes "pendingReq p cid ty due s" "due \<le> T"
  shows "Suc p \<in> set (dueTimers T s)"
proof -
  from assms(1)
  have "(Suc p, \<lparr>tc_correlationId = cid, tc_promise = p, tc_type = ty, tc_due = due\<rparr>)
          \<in> set (timers s)"
    by (auto simp: pendingReq_def dest: map_of_SomeD)
  with assms(2) show ?thesis
    by (force simp: dueTimers_set)
qed

lemma advanceTo_fields:
  "promises (advanceTo T s) = promises (fold timeoutFired (dueTimers T s) s)"
  "responseHandlers (advanceTo T s) = responseHandlers (fold timeoutFired (dueTimers T s) s)"
  by (simp_all add: advanceTo_def)

lemma advanceTo_expires:
  assumes "wf s" "pendingReq p cid ty due s" "due \<le> T"
  shows "map_of (promises (advanceTo T s)) p
           = Some (Rejected (Error (''Message timeout: '' @ ty)))
         \<and> map_of (responseHandlers (advanceTo T s)) cid = None"
proof -
  from is_due[OF assms(2,3)] obtain ts1 ts2 where
    sp: "dueTimers T s = ts1 @ Suc p # ts2" "Suc p \<notin> set ts1"
    by (auto dest: split_list_first)
  define s1 where "s1 = fold timeoutFired ts1 s"
  from fold_timeoutFired_inv[OF assms(1,2) sp(2)] have "pendingReq p cid ty due s1"
    by (simp add: s1_def)
  from timeoutFired_own[OF this]
  have "map_of (promises (timeoutFired (Suc p) s1)) p
           = Some (Rejected (Error (''Message timeout: '' @ ty)))"
       "map_of (responseHandlers (timeoutFired (Suc p) s1)) cid = None"
    by simp_all
  from fold_timeoutFired_settled[OF this(1) _ this(2), of ts2]
  show ?thesis
    by (simp add: advanceTo_fields sp(1) s1_def)
qed

lemma late_response_ignored:
  assumes "map_of (responseHandlers s) cid = None" "cid \<noteq> []" "isResponseFor cid w"
  shows "handleIncomingMessage s (Some w) sd = (Returns False, s)"
  using assms
  by (auto simp: handleIncomingMessage_def isResponseFor_def truthy_def Let_def
        split: option.splits)

subsection \<open>Claims about the ChromeExtensionTransport\<close>

lemma sentOnce_eval:
  "snd (send settingsGet None None (newChromeExtensionTransport popupConfig 5)) =
     \<lparr>config = popupConfig, messageHandlers = [],
      responseHandlers = [(''a1'', \<lparr>rh_promise = 0, rh_timeout = 1\<rparr>)],
      namespace = ''magicbutton'',
      timers = [(1, \<lparr>tc_correlationId = ''a1'', tc_promise = 0, tc_type = ''settings:get'',
                      tc_due = 30005\<rparr>)],
      promises = [(0, Pending)], nextId = 2, now = 5,
      trace = [OnMessageAddListener,
               RuntimeSendMessage
                 \<lparr>w_namespace = Some ''magicbutton'', w_componentType = Some ''popup'',
                  w_data = Some \<lparr>msg_id = ''a1'', msg_type = ''settings:get'',
                                 payload = Some ''theme'', msg_timestamp = Some 5,
                                 correlationId = None, msg_error = None\<rparr>,
                  w_action = None\<rparr>
                 (Some firstCallback)]\<rparr>"
  by (simp add: send_def sendViaRuntime_def sendWith_def Let_def
        newChromeExtensionTransport_def setupMessageListeners_def popupConfig_def
        settingsGet_def orElse_def wrap_def componentTypeName_def
        MESSAGE_TIMEOUT_def truthyNum_def firstCallback_def)

lemma closedRun_promise:
  "map_of (promises (run closedRun (newChromeExtensionTransport popupConfig 5))) 0
     = Some Pending"
  by (simp add: closedRun_def run_def sentOnce_eval advanceTo_def dueTimers_def
        close_def clearTimeout_def)

lemma lastErrorRun_promise:
  "map_of (promises (run lastErrorRun (newChromeExtensionTransport popupConfig 5))) 0
     = Some (Rejected (Error ''Failed to send message''))"
  by (simp add: lastErrorRun_def run_def sentOnce_eval advanceTo_def dueTimers_def
        sendCallback_def reject_def settle_def clearTimeout_def orElse_def firstCallback_def)

lemma thrownRun_promise:
  "map_of (promises (run thrownRun (newChromeExtensionTransport popupConfig 5))) 0
     = Some (Rejected (Error ''Extension context invalidated.''))"
  by (simp add: thrownRun_def run_def advanceTo_def dueTimers_def timeoutFired_def
        reject_def settle_def contextInvalidated_def
        send_def sendViaRuntime_def sendWith_def Let_def
        newChromeExtensionTransport_def setupMessageListeners_def popupConfig_def
        settingsGet_def truthyNum_def MESSAGE_TIMEOUT_def)

lemma emptyIdRun_response:
  "fst (handleIncomingMessage (run emptyIdRun (newChromeExtensionTransport popupConfig 5))
          (Some (responseTo ''magicbutton'' [])) someSender) = Returns True"
  by (simp add: emptyIdRun_def run_def advanceTo_def dueTimers_def timeoutFired_def
        reject_def settle_def onMessage_def handleIncomingMessage_def responseTo_def
        truthy_def orElse_def
        send_def sendViaRuntime_def sendWith_def Let_def
        newChromeExtensionTransport_def setupMessageListeners_def popupConfig_def
        emptyIdMessage_def truthyNum_def MESSAGE_TIMEOUT_def)

text \<open>
  Claim C2, as stated, fails. In each of these runs of a request with promise 0 no
  response message arrives at all, and 40000 ms pass. When the transport is closed
  in between, the promise is still pending; when the request's callback reports
  \<open>chrome.runtime.lastError\<close>, or the \<open>sendMessage\<close> call throws, the promise is
  rejected with that error and not with the timeout error. And for a request whose id
  is the empty string, a response carrying that correlation id after the timeout is
  not ignored: it is handed to the handler registered for the type \<open>response\<close>.
\<close>

theorem timeout_rejection_counterexample:
  "map_of (promises (run closedRun (newChromeExtensionTransport popupConfig 5))) 0
     = Some Pending
   \<and> map_of (promises (run lastErrorRun (newChromeExtensionTransport popupConfig 5))) 0
     = Some (Rejected (Error ''Failed to send message''))
   \<and> map_of (promises (run thrownRun (newChromeExtensionTransport popupConfig 5))) 0
     = Some (Rejected (Error ''Extension context invalidated.''))
   \<and> fst (handleIncomingMessage (run emptyIdRun (newChromeExtensionTransport popupConfig 5))
          (Some (responseTo ''magicbutton'' [])) someSender) = Returns True"
  using closedRun_promise lastErrorRun_promise thrownRun_promise emptyIdRun_response
  by blast

text \<open>
  Claim C2, amended. A transport is in any state it can reach from its construction;
  a message is sent and the \<open>sendMessage\<close> call does not throw, which creates the
  promise \<open>p\<close>. While no response with that correlation id arrives, the request's own
  callback reports neither \<open>chrome.runtime.lastError\<close> nor a response, the transport
  is not closed and the clock stays below the send time plus \<open>MESSAGE_TIMEOUT = 30000\<close>,
  the promise stays pending. Once the clock reaches the send time plus 30000, the
  promise is rejected with the error \<open>Message timeout: <type of the message>\<close> and
  the \<open>responseHandlers\<close> entry of that correlation id is gone; if the id is not
  empty, a response carrying that correlation id that arrives then makes
  \<open>handleIncomingMessage\<close> return \<open>false\<close> without any effect.
\<close>

theorem request_times_out:
  assumes "s0 = run pre (newChromeExtensionTransport cfg clock)"
    and "send m ctx None s0 = (p, s1)"
    and "\<forall>ev \<in> set evs. quiet p (message_id m) (now s0 + MESSAGE_TIMEOUT) ev"
    and "now s0 + MESSAGE_TIMEOUT \<le> T"
    and "s2 = advanceTo T (run evs s1)"
  shows "MESSAGE_TIMEOUT = 30000
     \<and> map_of (promises (run evs s1)) p = Some Pending
     \<and> map_of (promises s2) p
         = Some (Rejected (Error (''Message timeout: '' @ message_type m)))
     \<and> map_of (responseHandlers s2) (message_id m) = None
     \<and> (message_id m \<noteq> [] \<longrightarrow>
          (\<forall>w sd. isResponseFor (message_id m) w
             \<longrightarrow> handleIncomingMessage s2 (Some w) sd = (Returns False, s2)))"
proof -
  have w0: "wf s0"
    unfolding assms(1) by (rule wf_run) (rule wf_new)
  from pr_send_new[OF w0 assms(2)]
  have p1: "pendingReq p (message_id m) (message_type m) (now s0 + MESSAGE_TIMEOUT) s1"
    by blast
  from wf_send[OF w0, of m ctx None] assms(2) have w1: "wf s1" by simp
  from pr_run[OF w1 p1 assms(3)]
  have w2: "wf (run evs s1)"
    and p2: "pendingReq p (message_id m) (message_type m) (now s0 + MESSAGE_TIMEOUT)
               (run evs s1)"
    by simp_all
  from p2 have pend: "map_of (promises (run evs s1)) p = Some Pending"
    by (simp add: pendingReq_def)
  from advanceTo_expires[OF w2 p2 assms(4)] assms(5)
  have e: "map_of (promises s2) p
         = Some (Rejected (Error (''Message timeout: '' @ message_type m)))"
       "map_of (responseHandlers s2) (message_id m) = None"
    by simp_all
  from late_response_ignored[OF e(2)] pend e show ?thesis
    by (simp add: MESSAGE_TIMEOUT_def)
qed

lemma quietEvents_quiet:
  "\<forall>ev \<in> set quietEvents. quiet 0 (message_id settingsGet)
      (now (run [] (newChromeExtensionTransport popupConfig 5)) + MESSAGE_TIMEOUT) ev"
  by (simp add: quietEvents_def settingsGet_def responseTo_def isResponseFor_def
        run_def newChromeExtensionTransport_def setupMessageListeners_def popupConfig_def
        MESSAGE_TIMEOUT_def)

lemma send_settingsGet:
  "send settingsGet None None (run [] (newChromeExtensionTransport popupConfig 5))
     = (0, snd (send settingsGet None None
                  (run [] (newChromeExtensionTransport popupConfig 5))))"
  by (simp add: send_def sendViaRuntime_def sendWith_def Let_def run_def
        newChromeExtensionTransport_def setupMessageListeners_def popupConfig_def)

theorem request_times_out_witness:
  "message_id settingsGet \<noteq> []
   \<and> isResponseFor (message_id settingsGet) (responseTo ''magicbutton'' ''a1'')
   \<and> map_of (promises (advanceTo 30005 (run quietEvents
        (snd (send settingsGet None None (newChromeExtensionTransport popupConfig 5)))))) 0
       = Some (Rejected (Error ''Message timeout: settings:get''))
   \<and> fst (handleIncomingMessage (advanceTo 30005 (run quietEvents
        (snd (send settingsGet None None (newChromeExtensionTransport popupConfig 5)))))
        (Some (responseTo ''magicbutton'' ''a1'')) someSender) = Returns False"
proof -
  have a: "message_id settingsGet \<noteq> []"
    by (simp add: settingsGet_def)
  have b: "now (run [] (newChromeExtensionTransport popupConfig 5)) + MESSAGE_TIMEOUT \<le> 30005"
    by (simp add: run_def newChromeExtensionTransport_def setupMessageListeners_def
          popupConfig_def MESSAGE_TIMEOUT_def)
  have c: "isResponseFor (message_id settingsGet) (responseTo ''magicbutton'' ''a1'')"
    by (simp add: isResponseFor_def responseTo_def settingsGet_def)
  have d: "run [] (newChromeExtensionTransport popupConfig 5)
             = newChromeExtensionTransport popupConfig 5"
    by (simp add: run_def)
  have t: "message_type settingsGet = ''settings:get''"
    by (simp add: settingsGet_def)
  from request_times_out[OF refl send_settingsGet quietEvents_quiet b refl] c a
  show ?thesis
    unfolding d t by simp
qed

text \<open>
  Claim C10. For every inbound envelope whose namespace is absent or differs from the
  transport's namespace, \<open>handleIncomingMessage\<close> returns \<open>false\<close> and leaves the
  transport as it was: both handler tables are unchanged and the trace of calls
  (handler invocations, resolve and reject calls) has not grown.
\<close>

theorem handleIncomingMessage_foreign_namespace:
  assumes "w_namespace m \<noteq> Some (namespace this)"
  shows "fst (handleIncomingMessage this (Some m) sender) = Returns False
     \<and> messageHandlers (snd (handleIncomingMessage this (Some m) sender))
         = messageHandlers this
     \<and> responseHandlers (snd (handleIncomingMessage this (Some m) sender))
         = responseHandlers this
     \<and> trace (snd (handleIncomingMessage this (Some m) sender)) = trace this
     \<and> snd (handleIncomingMessage this (Some m) sender) = this"
  using assms by (simp add: handleIncomingMessage_def)

lemma namespace_twoPending: "namespace twoPending = ''magicbutton''"
  by (simp add: twoPending_def run_def send_def sendViaRuntime_def sendWith_def Let_def
        newChromeExtensionTransport_def setupMessageListeners_def popupConfig_def orElse_def)

theorem handleIncomingMessage_foreign_namespace_witness:
  "w_namespace (responseTo ''other-extension'' ''a1'') \<noteq> Some (namespace twoPending)
   \<and> handleIncomingMessage twoPending (Some (responseTo ''other-extension'' ''a1'')) someSender
       = (Returns False, twoPending)"
proof -
  have a: "w_namespace (responseTo ''other-extension'' ''a1'') \<noteq> Some (namespace twoPending)"
    by (simp add: namespace_twoPending responseTo_def)
  from handleIncomingMessage_foreign_namespace[OF a, of someSender] a show ?thesis
    by (simp add: prod_eq_iff)
qed

lemma settleCalls_append [simp]:
  "settleCalls p (xs @ ys) = settleCalls p xs @ settleCalls p ys"
  by (simp add: settleCalls_def)

lemma settleCalls_simps [simp]:
  "settleCalls p [] = []"
  "settleCalls p (ResolveCalled q v # tr) = (if q = p then [ResolveCalled q v] else []) @ settleCalls p tr"
  "settleCalls p (RejectCalled q e # tr) = (if q = p then [RejectCalled q e] else []) @ settleCalls p tr"
  "settleCalls p (HandlerInvoked h pl c # tr) = settleCalls p tr"
  "settleCalls p (SendMessageThrew ti w x # tr) = settleCalls p tr"
  "settleCalls p (SendResponse w # tr) = settleCalls p tr"
  "settleCalls p (OnMessageAddListener # tr) = settleCalls p tr"
  "settleCalls p (OnConnectAddListener # tr) = settleCalls p tr"
  "settleCalls p (OnMessageRemoveListener # tr) = settleCalls p tr"
  "settleCalls p (TabsSendMessage i w cb # tr) = settleCalls p tr"
  "settleCalls p (RuntimeSendMessage w cb # tr) = settleCalls p tr"
  by (simp_all add: settleCalls_def)

lemma close_fields:
  "responseHandlers (close this) = []"
  "promises (close this) = promises this"
  "trace (close this) = trace this @ [OnMessageRemoveListener]"
  "messageHandlers (close this) = messageHandlers this"
  by (simp_all add: close_def fold_clearTimeout_fields)

lemma close_timers:
  "(cid, h) \<in> set (responseHandlers this) \<Longrightarrow>
   map_of (timers (close this)) (rh_timeout h) = None"
  by (force simp: close_def fold_clearTimeout_timers)

lemma twoPending_eval:
  "twoPending =
     \<lparr>config = popupConfig, messageHandlers = [],
      responseHandlers = [(''a1'', \<lparr>rh_promise = 0, rh_timeout = 1\<rparr>),
                          (''a2'', \<lparr>rh_promise = 2, rh_timeout = 3\<rparr>)],
      namespace = ''magicbutton'',
      timers = [(1, \<lparr>tc_correlationId = ''a1'', tc_promise = 0, tc_type = ''settings:get'',
                      tc_due = 30005\<rparr>),
                (3, \<lparr>tc_correlationId = ''a2'', tc_promise = 2, tc_type = ''ui:show'',
                      tc_due = 30005\<rparr>)],
      promises = [(0, Pending), (2, Pending)], nextId = 4, now = 5,
      trace = [OnMessageAddListener,
               RuntimeSendMessage
                 \<lparr>w_namespace = Some ''magicbutton'', w_componentType = Some ''popup'',
                  w_data = Some \<lparr>msg_id = ''a1'', msg_type = ''settings:get'',
                                 payload = Some ''theme'', msg_timestamp = Some 5,
                                 correlationId = None, msg_error = None\<rparr>,
                  w_action = None\<rparr>
                 (Some \<lparr>cb_kind = ViaRuntime, cb_correlationId = ''a1'', cb_timeout = 1,
                        cb_promise = 0\<rparr>),
               RuntimeSendMessage
                 \<lparr>w_namespace = Some ''magicbutton'', w_componentType = Some ''popup'',
                  w_data = Some \<lparr>msg_id = ''a2'', msg_type = ''ui:show'',
                                 payload = None, msg_timestamp = Some 5,
                                 correlationId = None, msg_error = None\<rparr>,
                  w_action = None\<rparr>
                 (Some \<lparr>cb_kind = ViaRuntime, cb_correlationId = ''a2'', cb_timeout = 3,
                        cb_promise = 2\<rparr>)]\<rparr>"
  by (simp add: twoPending_def run_def send_def sendViaRuntime_def sendWith_def Let_def
        newChromeExtensionTransport_def setupMessageListeners_def popupConfig_def
        settingsGet_def uiShow_def orElse_def wrap_def componentTypeName_def
        MESSAGE_TIMEOUT_def truthyNum_def)

text \<open>
  Claim C1, as stated, fails: with the two requests \<open>a1\<close> and \<open>a2\<close> outstanding,
  \<open>close\<close> leaves both promises pending and calls neither \<open>reject\<close> nor \<open>resolve\<close>
  for them.
\<close>

theorem close_rejects_pending_counterexample:
  "map fst (responseHandlers twoPending) = [''a1'', ''a2'']
   \<and> map_of (promises (close twoPending)) 0 = Some Pending
   \<and> map_of (promises (close twoPending)) 2 = Some Pending
   \<and> settleCalls 0 (trace (close twoPending)) = []
   \<and> settleCalls 2 (trace (close twoPending)) = []"
  by (simp add: close_fields) (simp add: twoPending_eval)

text \<open>
  Claim C1, amended. \<open>close\<close> with any number of requests outstanding cancels the
  timeout timer of every entry of \<open>responseHandlers\<close> and leaves the table empty. It
  rejects and resolves nothing: every promise is as it was, and no call of a
  \<open>resolve\<close>/\<open>reject\<close> pair is added.
\<close>

theorem close_clears_without_settling:
  "responseHandlers (close this) = []
   \<and> (\<forall>(cid, h) \<in> set (responseHandlers this).
         map_of (timers (close this)) (rh_timeout h) = None)
   \<and> promises (close this) = promises this
   \<and> settleCalls p (trace (close this)) = settleCalls p (trace this)"
  by (auto simp: close_fields close_timers)

theorem close_clears_without_settling_witness:
  "(''a2'', \<lparr>rh_promise = 2, rh_timeout = 3\<rparr>) \<in> set (responseHandlers twoPending)
   \<and> map_of (timers twoPending) 3 \<noteq> None
   \<and> map_of (timers (close twoPending)) 3 = None
   \<and> responseHandlers (close twoPending) = []
   \<and> promises (close twoPending) = [(0, Pending), (2, Pending)]"
proof -
  have a: "(''a2'', \<lparr>rh_promise = 2, rh_timeout = 3\<rparr>) \<in> set (responseHandlers twoPending)"
    by (simp add: twoPending_eval)
  have b: "map_of (timers twoPending) 3 \<noteq> None"
    by (simp add: twoPending_eval)
  have c: "promises twoPending = [(0, Pending), (2, Pending)]"
    by (simp add: twoPending_eval)
  from close_clears_without_settling[of twoPending 0] a b c show ?thesis
    by fastforce
qed

lemma settled_timeoutFired_fold:
  "map_of (promises s) p = Some st \<Longrightarrow> st \<noteq> Pending \<Longrightarrow>
   map_of (promises (fold timeoutFired ts s)) p = Some st"
  by (induction ts arbitrary: s) (auto simp: timeoutFired_settled)

lemma settled_step:
  assumes "wf s" "map_of (promises s) p = Some st" "st \<noteq> Pending"
  shows "map_of (promises (step ev s)) p = Some st"
proof (cases ev)
  case (EvSend m c thrown)
  from assms(2) have "(p, st) \<in> set (promises s)" by (rule map_of_SomeD)
  with assms(1) have "p \<noteq> nextId s" by (auto simp: wf_def)
  with assms(2) EvSend show ?thesis
    using send_cases[of m c thrown s]
    by (auto simp: sendWith_def Let_def AList.update_conv')
next
  case (EvIncoming w sd)
  with assms(2,3) show ?thesis
    by (auto simp: handleIncomingMessage_def Let_def resolve_def reject_def clearTimeout_def
          map_of_settle split: option.splits)
next
  case (EvSendCallback cb le r)
  with assms(2,3) show ?thesis
    by (auto simp: sendCallback_def Let_def resolve_def reject_def clearTimeout_def
          map_of_settle split: option.splits)
next
  case (EvAdvance T)
  with assms(2,3) show ?thesis
    by (simp add: advanceTo_fields settled_timeoutFired_fold)
next
  case (EvOnMessage t h)
  with assms(2) show ?thesis by (simp add: onMessage_def)
next
  case (EvOffMessage t)
  with assms(2) show ?thesis by (simp add: offMessage_def)
next
  case (EvBroadcast m q dl rd)
  with assms(2) show ?thesis
    by (auto simp: broadcast_def Let_def
          split: ComponentType.splits sum.splits prod.splits Delivery.splits)
next
  case EvClose
  with assms(2) show ?thesis by (simp add: close_fields)
qed

lemma settled_run:
  assumes "wf s" "map_of (promises s) p = Some st" "st \<noteq> Pending"
  shows "map_of (promises (run evs s)) p = Some st"
  using assms unfolding run_def
proof (induction evs arbitrary: s)
  case Nil
  then show ?case by simp
next
  case (Cons ev evs)
  from Cons.prems have "wf (step ev s)" "map_of (promises (step ev s)) p = Some st"
    by (auto intro: wf_step settled_step)
  with Cons.IH[of "step ev s"] Cons.prems(3) show ?case by simp
qed

lemma inbound_response_path:
  assumes "map_of (responseHandlers s) cid = Some h" "cid \<noteq> []" "isResponseFor cid w"
    and "w_namespace w = Some (namespace s)" "namespace s \<noteq> []"
  shows "length (settleCalls (rh_promise h) (trace (snd (handleIncomingMessage s (Some w) sd))))
           = Suc (length (settleCalls (rh_promise h) (trace s)))"
    and "map_of (responseHandlers (snd (handleIncomingMessage s (Some w) sd))) cid = None"
    and "map_of (timers (snd (handleIncomingMessage s (Some w) sd))) (rh_timeout h) = None"
  using assms
  by (auto simp: handleIncomingMessage_def isResponseFor_def truthy_def Let_def
        resolve_def reject_def clearTimeout_def AList.delete_conv' split: option.splits)

lemma callback_path:
  assumes "le \<noteq> None \<or> r \<noteq> None"
  shows "length (settleCalls (cb_promise cb) (trace (sendCallback cb le r s)))
           = Suc (length (settleCalls (cb_promise cb) (trace s)))"
    and "map_of (responseHandlers (sendCallback cb le r s)) (cb_correlationId cb) = None"
    and "map_of (timers (sendCallback cb le r s)) (cb_timeout cb) = None"
  using assms
  by (auto simp: sendCallback_def Let_def resolve_def reject_def clearTimeout_def
        AList.delete_conv' split: option.splits)

lemma timeout_path:
  assumes "map_of (timers s) t = Some c"
  shows "settleCalls (tc_promise c) (trace (timeoutFired t s))
           = settleCalls (tc_promise c) (trace s)
               @ [RejectCalled (tc_promise c) (Error (''Message timeout: '' @ tc_type c))]"
    and "map_of (responseHandlers (timeoutFired t s)) (tc_correlationId c) = None"
    and "map_of (timers (timeoutFired t s)) t = None"
  using assms
  by (auto simp: timeoutFired_def reject_def AList.delete_conv')

lemma sendThenClose_eval:
  "settleCalls 0 (trace (run [EvSend settingsGet None None, EvClose]
       (newChromeExtensionTransport popupConfig 5))) = []"
  "map_of (promises (run [EvSend settingsGet None None, EvClose]
       (newChromeExtensionTransport popupConfig 5))) 0 = Some Pending"
  "responseHandlers (run [EvSend settingsGet None None, EvClose]
       (newChromeExtensionTransport popupConfig 5)) = []"
  by (simp_all add: run_def close_fields send_def sendViaRuntime_def sendWith_def Let_def
        newChromeExtensionTransport_def setupMessageListeners_def popupConfig_def
        settingsGet_def truthyNum_def)

lemma timedOut_eval:
  "advanceTo 30005
     (snd (send settingsGet None None (newChromeExtensionTransport popupConfig 5))) =
     \<lparr>config = popupConfig, messageHandlers = [], responseHandlers = [],
      namespace = ''magicbutton'', timers = [],
      promises = [(0, Rejected (Error ''Message timeout: settings:get''))],
      nextId = 2, now = 30005,
      trace = [OnMessageAddListener,
               RuntimeSendMessage
                 \<lparr>w_namespace = Some ''magicbutton'', w_componentType = Some ''popup'',
                  w_data = Some \<lparr>msg_id = ''a1'', msg_type = ''settings:get'',
                                 payload = Some ''theme'', msg_timestamp = Some 5,
                                 correlationId = None, msg_error = None\<rparr>,
                  w_action = None\<rparr>
                 (Some firstCallback),
               RejectCalled 0 (Error ''Message timeout: settings:get'')]\<rparr>"
  by (simp add: advanceTo_def dueTimers_def timeoutFired_def reject_def settle_def
        send_def sendViaRuntime_def sendWith_def Let_def
        newChromeExtensionTransport_def setupMessageListeners_def popupConfig_def
        settingsGet_def orElse_def wrap_def componentTypeName_def
        MESSAGE_TIMEOUT_def truthyNum_def firstCallback_def)

lemma lateCallbackRun_eval:
  "settleCalls 0 (trace (run lateCallbackRun (newChromeExtensionTransport popupConfig 5)))
     = [RejectCalled 0 (Error ''Message timeout: settings:get''),
        ResolveCalled 0 (Some ''dark'')]"
  "map_of (promises (run lateCallbackRun (newChromeExtensionTransport popupConfig 5))) 0
     = Some (Rejected (Error ''Message timeout: settings:get''))"
  by (simp_all add: lateCallbackRun_def run_def timedOut_eval sendCallback_def
        responseTo_def truthy_def resolve_def settle_def clearTimeout_def Let_def
        firstCallback_def)

text \<open>
  Claim C3, as stated, fails. A request that is outstanding when the transport is
  closed has its entry removed while neither \<open>resolve\<close> nor \<open>reject\<close> is ever called
  for it. (And for a request that has timed out, a response that its \<open>sendMessage\<close>
  callback delivers afterwards calls \<open>resolve\<close> after \<open>reject\<close>.)
\<close>

theorem settle_exactly_once_counterexample:
  "responseHandlers (run [EvSend settingsGet None None, EvClose]
       (newChromeExtensionTransport popupConfig 5)) = []
   \<and> settleCalls 0 (trace (run [EvSend settingsGet None None, EvClose]
       (newChromeExtensionTransport popupConfig 5))) = []
   \<and> settleCalls 0 (trace (run lateCallbackRun (newChromeExtensionTransport popupConfig 5)))
       = [RejectCalled 0 (Error ''Message timeout: settings:get''),
          ResolveCalled 0 (Some ''dark'')]"
  by (simp add: sendThenClose_eval lateCallbackRun_eval)

text \<open>
  Claim C3, amended. Each completion path other than \<open>close\<close> calls exactly one
  function of the entry's \<open>resolve\<close>/\<open>reject\<close> pair, once, removes the entry and
  cancels its timer: a matched inbound response, a \<open>sendMessage\<close> callback that
  reports \<open>chrome.runtime.lastError\<close> or a response, and the expiry of the timer
  (which calls \<open>reject\<close> with the timeout error). \<open>close\<close> empties the table, cancels
  the timers of its entries and calls neither function. In every run, a promise that has been settled keeps its outcome.
\<close>

theorem completion_paths:
  "(map_of (responseHandlers s) cid = Some h \<and> cid \<noteq> [] \<and> isResponseFor cid w
      \<and> w_namespace w = Some (namespace s) \<and> namespace s \<noteq> [] \<longrightarrow>
      length (settleCalls (rh_promise h) (trace (snd (handleIncomingMessage s (Some w) sd))))
        = Suc (length (settleCalls (rh_promise h) (trace s)))
      \<and> map_of (responseHandlers (snd (handleIncomingMessage s (Some w) sd))) cid = None
      \<and> map_of (timers (snd (handleIncomingMessage s (Some w) sd))) (rh_timeout h) = None)
   \<and> (le \<noteq> None \<or> r \<noteq> None \<longrightarrow>
      length (settleCalls (cb_promise cb) (trace (sendCallback cb le r s)))
        = Suc (length (settleCalls (cb_promise cb) (trace s)))
      \<and> map_of (responseHandlers (sendCallback cb le r s)) (cb_correlationId cb) = None
      \<and> map_of (timers (sendCallback cb le r s)) (cb_timeout cb) = None)
   \<and> (map_of (timers s) t = Some c \<longrightarrow>
      settleCalls (tc_promise c) (trace (timeoutFired t s))
        = settleCalls (tc_promise c) (trace s)
            @ [RejectCalled (tc_promise c) (Error (''Message timeout: '' @ tc_type c))]
      \<and> map_of (responseHandlers (timeoutFired t s)) (tc_correlationId c) = None
      \<and> map_of (timers (timeoutFired t s)) t = None)
   \<and> settleCalls p (trace (close s)) = settleCalls p (trace s)
   \<and> responseHandlers (close s) = []
   \<and> (\<forall>(k, e) \<in> set (responseHandlers s). map_of (timers (close s)) (rh_timeout e) = None)
   \<and> (s = run pre (newChromeExtensionTransport cfg clock)
      \<and> map_of (promises s) p = Some st \<and> st \<noteq> Pending \<longrightarrow>
      map_of (promises (run evs s)) p = Some st)"
proof -
  have e: "s = run pre (newChromeExtensionTransport cfg clock)
      \<and> map_of (promises s) p = Some st \<and> st \<noteq> Pending \<longrightarrow>
      map_of (promises (run evs s)) p = Some st"
    using settled_run[of s p st evs] wf_run[OF wf_new, of pre cfg clock] by blast
  have f: "\<forall>(k, e) \<in> set (responseHandlers s).
             map_of (timers (close s)) (rh_timeout e) = None"
    by (auto simp: close_timers)
  show ?thesis
    using inbound_response_path[of s cid h w sd] callback_path[of le r cb s]
          timeout_path[of s t c] e f
    by (simp add: close_fields)
qed

lemma timedOutRun:
  "run [EvSend settingsGet None None, EvAdvance 30005]
       (newChromeExtensionTransport popupConfig 5)
     = advanceTo 30005
         (snd (send settingsGet None None (newChromeExtensionTransport popupConfig 5)))"
  by (simp add: run_def)

theorem completion_paths_witness:
  "map_of (responseHandlers twoPending) ''a1'' = Some \<lparr>rh_promise = 0, rh_timeout = 1\<rparr>
   \<and> isResponseFor ''a1'' (responseTo ''magicbutton'' ''a1'')
   \<and> w_namespace (responseTo ''magicbutton'' ''a1'') = Some (namespace twoPending)
   \<and> namespace twoPending \<noteq> []
   \<and> length (settleCalls 0 (trace (snd (handleIncomingMessage twoPending
                (Some (responseTo ''magicbutton'' ''a1'')) someSender)))) = 1
   \<and> length (settleCalls 2 (trace (sendCallback secondCallback (Some None) None twoPending))) = 1
   \<and> map_of (timers twoPending) 3
        = Some \<lparr>tc_correlationId = ''a2'', tc_promise = 2, tc_type = ''ui:show'',
                tc_due = 30005\<rparr>
   \<and> settleCalls 2 (trace (timeoutFired 3 twoPending))
        = [RejectCalled 2 (Error ''Message timeout: ui:show'')]
   \<and> map_of (promises (run [EvSend settingsGet None None, EvAdvance 30005]
                 (newChromeExtensionTransport popupConfig 5))) 0
        = Some (Rejected (Error ''Message timeout: settings:get''))
   \<and> map_of (promises (run [EvSendCallback firstCallback None
                                (Some (responseTo ''magicbutton'' ''a1''))]
                 (run [EvSend settingsGet None None, EvAdvance 30005]
                    (newChromeExtensionTransport popupConfig 5)))) 0
        = Some (Rejected (Error ''Message timeout: settings:get''))"
proof -
  have h1: "map_of (responseHandlers twoPending) ''a1'' = Some \<lparr>rh_promise = 0, rh_timeout = 1\<rparr>"
    by (simp add: twoPending_eval)
  have h2: "isResponseFor ''a1'' (responseTo ''magicbutton'' ''a1'')"
    by (simp add: isResponseFor_def responseTo_def)
  have h3: "w_namespace (responseTo ''magicbutton'' ''a1'') = Some (namespace twoPending)"
    by (simp add: namespace_twoPending responseTo_def)
  have h4: "namespace twoPending \<noteq> []"
    by (simp add: namespace_twoPending)
  have h5: "(Some None :: string option option) \<noteq> None \<or> (None :: WrappedMessage option) \<noteq> None"
    by simp
  have h6: "map_of (timers twoPending) 3
        = Some \<lparr>tc_correlationId = ''a2'', tc_promise = 2, tc_type = ''ui:show'',
                tc_due = 30005\<rparr>"
    by (simp add: twoPending_eval)
  have h7: "map_of (promises (run [EvSend settingsGet None None, EvAdvance 30005]
                 (newChromeExtensionTransport popupConfig 5))) 0
        = Some (Rejected (Error ''Message timeout: settings:get''))"
    by (simp add: timedOutRun timedOut_eval)
  have z: "settleCalls 0 (trace twoPending) = []" "settleCalls 2 (trace twoPending) = []"
    by (simp_all add: twoPending_eval)
  have c2: "cb_promise secondCallback = 2"
    by (simp add: secondCallback_def)
  note first = completion_paths[where s = twoPending and cid = "''a1''"
      and h = "\<lparr>rh_promise = 0, rh_timeout = 1\<rparr>"
      and w = "responseTo ''magicbutton'' ''a1''" and sd = someSender
      and le = "Some None" and r = None and cb = secondCallback and t = 3
      and c = "\<lparr>tc_correlationId = ''a2'', tc_promise = 2, tc_type = ''ui:show'',
                tc_due = 30005\<rparr>"]
  note second = completion_paths[where
      s = "run [EvSend settingsGet None None, EvAdvance 30005]
             (newChromeExtensionTransport popupConfig 5)"
      and pre = "[EvSend settingsGet None None, EvAdvance 30005]" and cfg = popupConfig
      and clock = 5 and p = 0 and st = "Rejected (Error ''Message timeout: settings:get'')"
      and evs = "[EvSendCallback firstCallback None (Some (responseTo ''magicbutton'' ''a1''))]"]
  have a: "length (settleCalls 0 (trace (snd (handleIncomingMessage twoPending
                (Some (responseTo ''magicbutton'' ''a1'')) someSender)))) = 1"
    using first h1 h2 h3 h4 z by simp
  have b: "length (settleCalls 2 (trace (sendCallback secondCallback (Some None) None twoPending))) = 1"
    using first h5 z c2 by simp
  have c: "settleCalls 2 (trace (timeoutFired 3 twoPending))
        = [RejectCalled 2 (Error ''Message timeout: ui:show'')]"
    using first h6 z by simp
  have d: "map_of (promises (run [EvSendCallback firstCallback None
                                (Some (responseTo ''magicbutton'' ''a1''))]
                 (run [EvSend settingsGet None None, EvAdvance 30005]
                    (newChromeExtensionTransport popupConfig 5)))) 0
        = Some (Rejected (Error ''Message timeout: settings:get''))"
    using second h7 by simp
  from h1 h2 h3 h4 a b h6 c h7 d show ?thesis
    by blast
qed

lemma broadcastRecipients_append [simp]:
  "broadcastRecipients (xs @ ys) = broadcastRecipients xs @ broadcastRecipients ys"
  by (simp add: broadcastRecipients_def)

lemma broadcastRecipients_Cons [simp]:
  "broadcastRecipients (TabsSendMessage i w None # tr) = i # broadcastRecipients tr"
  "broadcastRecipients (SendMessageThrew (Some i) w x # tr) = i # broadcastRecipients tr"
  "broadcastRecipients [] = []"
  by (simp_all add: broadcastRecipients_def)

lemma forEachTab_reported: "fst (snd (forEachTab w delivery tabs)) = []"
  by (induction tabs)
     (auto simp: ignoreBroadcastError_def split: Delivery.splits prod.splits)

lemma forEachTab_no_throw:
  assumes "\<forall>tab \<in> set tabs. truthyNum (tab_id tab) \<longrightarrow> \<not> throwsNow (delivery (the (tab_id tab)))"
  shows "forEachTab w delivery tabs
           = (map (\<lambda>tab. TabsSendMessage (the (tab_id tab)) w None)
                (filter (\<lambda>tab. truthyNum (tab_id tab)) tabs), [], None)"
  using assms
  by (induction tabs)
     (auto simp: ignoreBroadcastError_def throwsNow_def split: Delivery.splits)

lemma broadcastRecipients_calls:
  "broadcastRecipients (map (\<lambda>tab. TabsSendMessage (the (tab_id tab)) w None) tabs)
     = map (\<lambda>tab. the (tab_id tab)) tabs"
  by (induction tabs) simp_all

lemma broadcast_examples:
  "broadcastRecipients (trace (snd (broadcast uiShow (Inr threeTabs) secondTabRejects Delivered
       (newChromeExtensionTransport backgroundConfig 5)))) = [1, 2, 3]"
  "bo_result (fst (broadcast uiShow (Inr threeTabs) secondTabRejects Delivered
       (newChromeExtensionTransport backgroundConfig 5))) = Inr ()"
  "bo_reported (fst (broadcast uiShow (Inr threeTabs) secondTabRejects Delivered
       (newChromeExtensionTransport backgroundConfig 5))) = []"
  "broadcastRecipients (trace (snd (broadcast uiShow (Inr threeTabs) secondTabThrows Delivered
       (newChromeExtensionTransport backgroundConfig 5)))) = [1, 2]"
  "bo_result (fst (broadcast uiShow (Inr threeTabs) secondTabThrows Delivered
       (newChromeExtensionTransport backgroundConfig 5)))
     = Inl (Error ''Extension context invalidated.'')"
  by (simp_all add: broadcast_def Let_def newChromeExtensionTransport_def
        setupMessageListeners_def backgroundConfig_def threeTabs_def secondTabRejects_def
        secondTabThrows_def truthyNum_def broadcastRecipients_def ignoreBroadcastError_def)

text \<open>
  Claim C8, as stated, fails. A background transport broadcasts to three tabs. When
  the delivery to the second tab fails through the promise that \<open>sendMessage\<close>
  returns, \<open>sendMessage\<close> is called for all three tabs and the call returns, but no
  failure is reported. When the \<open>sendMessage\<close> call for the second tab throws, the
  third tab is never tried and the broadcast call fails with that exception.
\<close>

theorem broadcast_reports_counterexample:
  "secondTabRejects 2 = RejectsLater (Error ''Could not establish connection'')
   \<and> broadcastRecipients (trace (snd (broadcast uiShow (Inr threeTabs) secondTabRejects
        Delivered (newChromeExtensionTransport backgroundConfig 5)))) = [1, 2, 3]
   \<and> bo_result (fst (broadcast uiShow (Inr threeTabs) secondTabRejects Delivered
        (newChromeExtensionTransport backgroundConfig 5))) = Inr ()
   \<and> bo_reported (fst (broadcast uiShow (Inr threeTabs) secondTabRejects Delivered
        (newChromeExtensionTransport backgroundConfig 5))) = []
   \<and> secondTabThrows 2 = ThrowsNow (Error ''Extension context invalidated.'')
   \<and> broadcastRecipients (trace (snd (broadcast uiShow (Inr threeTabs) secondTabThrows
        Delivered (newChromeExtensionTransport backgroundConfig 5)))) = [1, 2]
   \<and> bo_result (fst (broadcast uiShow (Inr threeTabs) secondTabThrows Delivered
        (newChromeExtensionTransport backgroundConfig 5)))
       = Inl (Error ''Extension context invalidated.'')"
  by (simp add: broadcast_examples) (simp add: secondTabRejects_def secondTabThrows_def)

text \<open>
  Claim C8, amended. \<open>broadcast\<close> is fan-out and best-effort for the failures that the
  promise of \<open>sendMessage\<close> reports. From the background component, once the tab
  query has answered and provided that no \<open>sendMessage\<close> call throws, \<open>sendMessage\<close> is
  called for every tab with an id, in order, whichever of the deliveries are
  rejected, and the broadcast call returns normally. From any other component,
  provided that the call does not throw, one runtime message with action
  \<open>broadcast\<close> is sent and the broadcast call returns normally, whether its delivery
  is rejected or not. Rejected deliveries are ignored: no failure is ever reported.
\<close>

theorem broadcast_best_effort:
  "(componentType (config this) = Background
      \<and> (\<forall>tab \<in> set tabs. truthyNum (tab_id tab)
            \<longrightarrow> \<not> throwsNow (delivery (the (tab_id tab)))) \<longrightarrow>
      bo_result (fst (broadcast message (Inr tabs) delivery runtimeDelivery this)) = Inr ()
      \<and> broadcastRecipients
           (trace (snd (broadcast message (Inr tabs) delivery runtimeDelivery this)))
          = broadcastRecipients (trace this)
              @ map (\<lambda>tab. the (tab_id tab)) (filter (\<lambda>tab. truthyNum (tab_id tab)) tabs))
   \<and> (componentType (config this) \<noteq> Background \<and> \<not> throwsNow runtimeDelivery \<longrightarrow>
      bo_result (fst (broadcast message tabsQuery delivery runtimeDelivery this)) = Inr ()
      \<and> channelWrites
           (trace (snd (broadcast message tabsQuery delivery runtimeDelivery this)))
          = channelWrites (trace this)
              @ [RuntimeSendMessage
                   ((wrap this
                      \<lparr>msg_id = message_id message, msg_type = message_type message,
                       payload = message_payload message, msg_timestamp = Some (now this),
                       correlationId = None, msg_error = None\<rparr>)
                    \<lparr>w_action := Some ''broadcast''\<rparr>) None])
   \<and> bo_reported (fst (broadcast message tabsQuery delivery runtimeDelivery this)) = []"
proof -
  have rep: "bo_reported (fst (broadcast message tabsQuery delivery runtimeDelivery this)) = []"
    using forEachTab_reported
    by (auto simp: broadcast_def Let_def ignoreBroadcastError_def
          split: ComponentType.splits sum.splits prod.splits Delivery.splits
          dest!: arg_cong[where f = "\<lambda>x. fst (snd x)"])
  have bg: "componentType (config this) = Background
      \<and> (\<forall>tab \<in> set tabs. truthyNum (tab_id tab)
            \<longrightarrow> \<not> throwsNow (delivery (the (tab_id tab)))) \<Longrightarrow>
      bo_result (fst (broadcast message (Inr tabs) delivery runtimeDelivery this)) = Inr ()
      \<and> broadcastRecipients
           (trace (snd (broadcast message (Inr tabs) delivery runtimeDelivery this)))
          = broadcastRecipients (trace this)
              @ map (\<lambda>tab. the (tab_id tab)) (filter (\<lambda>tab. truthyNum (tab_id tab)) tabs)"
    by (simp add: broadcast_def Let_def forEachTab_no_throw broadcastRecipients_calls)
  have other: "componentType (config this) \<noteq> Background \<and> \<not> throwsNow runtimeDelivery \<Longrightarrow>
      bo_result (fst (broadcast message tabsQuery delivery runtimeDelivery this)) = Inr ()
      \<and> channelWrites
           (trace (snd (broadcast message tabsQuery delivery runtimeDelivery this)))
          = channelWrites (trace this)
              @ [RuntimeSendMessage
                   ((wrap this
                      \<lparr>msg_id = message_id message, msg_type = message_type message,
                       payload = message_payload message, msg_timestamp = Some (now this),
                       correlationId = None, msg_error = None\<rparr>)
                    \<lparr>w_action := Some ''broadcast''\<rparr>) None]"
    by (cases "componentType (config this)"; cases runtimeDelivery)
       (simp_all add: broadcast_def Let_def channelWrites_def throwsNow_def)
  from rep bg other show ?thesis by blast
qed

theorem broadcast_best_effort_witness:
  "componentType (config (newChromeExtensionTransport backgroundConfig 5)) = Background
   \<and> \<not> throwsNow (secondTabRejects 1) \<and> \<not> throwsNow (secondTabRejects 2)
   \<and> \<not> throwsNow (secondTabRejects 3)
   \<and> secondTabRejects 2 = RejectsLater (Error ''Could not establish connection'')
   \<and> componentType (config (newChromeExtensionTransport popupConfig 5)) \<noteq> Background
   \<and> \<not> throwsNow (RejectsLater (Error ''Could not establish connection''))
   \<and> broadcastRecipients (trace (snd (broadcast uiShow (Inr threeTabs) secondTabRejects
        (RejectsLater (Error ''Could not establish connection''))
        (newChromeExtensionTransport backgroundConfig 5)))) = [1, 2, 3]
   \<and> bo_result (fst (broadcast uiShow (Inr threeTabs) secondTabRejects
        (RejectsLater (Error ''Could not establish connection''))
        (newChromeExtensionTransport backgroundConfig 5))) = Inr ()
   \<and> bo_result (fst (broadcast uiShow (Inr threeTabs) secondTabRejects
        (RejectsLater (Error ''Could not establish connection''))
        (newChromeExtensionTransport popupConfig 5))) = Inr ()
   \<and> bo_reported (fst (broadcast uiShow (Inr threeTabs) secondTabRejects
        (RejectsLater (Error ''Could not establish connection''))
        (newChromeExtensionTransport backgroundConfig 5))) = []"
proof -
  have a: "componentType (config (newChromeExtensionTransport backgroundConfig 5)) = Background"
    by (simp add: newChromeExtensionTransport_def setupMessageListeners_def backgroundConfig_def)
  have b: "componentType (config (newChromeExtensionTransport popupConfig 5)) \<noteq> Background"
    by (simp add: newChromeExtensionTransport_def setupMessageListeners_def popupConfig_def)
  have c: "broadcastRecipients (trace (newChromeExtensionTransport backgroundConfig 5)) = []"
    by (simp add: newChromeExtensionTransport_def setupMessageListeners_def backgroundConfig_def
          broadcastRecipients_def)
  have d: "map (\<lambda>tab. the (tab_id tab)) (filter (\<lambda>tab. truthyNum (tab_id tab)) threeTabs)
             = [1, 2, 3]"
    by (simp add: threeTabs_def truthyNum_def)
  have e: "\<forall>tab \<in> set threeTabs. truthyNum (tab_id tab)
         \<longrightarrow> \<not> throwsNow (secondTabRejects (the (tab_id tab)))"
    by (simp add: threeTabs_def secondTabRejects_def throwsNow_def)
  have f: "\<not> throwsNow (RejectsLater (Error ''Could not establish connection''))"
    by (simp add: throwsNow_def)
  have g: "secondTabRejects 2 = RejectsLater (Error ''Could not establish connection'')"
    by (simp add: secondTabRejects_def)
  have h: "\<not> throwsNow (secondTabRejects 1) \<and> \<not> throwsNow (secondTabRejects 2)
           \<and> \<not> throwsNow (secondTabRejects 3)"
    by (simp add: secondTabRejects_def throwsNow_def)
  from broadcast_best_effort[of "newChromeExtensionTransport backgroundConfig 5" threeTabs
         secondTabRejects uiShow "RejectsLater (Error ''Could not establish connection'')"
         "Inr threeTabs"]
       broadcast_best_effort[of "newChromeExtensionTransport popupConfig 5" threeTabs
         secondTabRejects uiShow "RejectsLater (Error ''Could not establish connection'')"
         "Inr threeTabs"]
       a b c d e f g h
  show ?thesis by simp
qed

section \<open>Properties of ChromeTransport and NatsTransport\<close>

lemma channelWrites_append [simp]:
  "channelWrites (xs @ ys) = channelWrites xs @ channelWrites ys"
  by (simp add: channelWrites_def)

lemma send_writes:
  "length (channelWrites (trace (snd (send message ctx thrown this))))
     = Suc (length (channelWrites (trace this)))"
proof -
  from send_cases[of message ctx thrown this] obtain kind tabId w d where
    "send message ctx thrown this = sendWith kind tabId w d thrown this" by blast
  then show ?thesis
    by (cases kind; cases thrown) (simp_all add: sendWith_def Let_def channelWrites_def)
qed

text \<open>
  Claim C9, as stated, fails for the ChromeExtensionTransport: it keeps no connection
  state, and \<open>send\<close> on a transport that has been closed still hands the message to
  \<open>chrome.runtime.sendMessage\<close> and returns a pending promise.
\<close>

theorem send_after_close_counterexample:
  "channelWrites (trace (close (newChromeExtensionTransport popupConfig 5))) = []
   \<and> length (channelWrites (trace (snd (send uiShow None None
        (close (newChromeExtensionTransport popupConfig 5)))))) = 1
   \<and> map_of (promises (snd (send uiShow None None
        (close (newChromeExtensionTransport popupConfig 5)))))
        (fst (send uiShow None None (close (newChromeExtensionTransport popupConfig 5))))
       = Some Pending"
  by (simp add: send_def sendViaRuntime_def sendWith_def Let_def close_def
        newChromeExtensionTransport_def setupMessageListeners_def popupConfig_def
        truthyNum_def channelWrites_def)

text \<open>
  Claim C9, amended. For the ChromeTransport and the NatsTransport, \<open>send\<close> on a
  transport that is not connected fails with the error \<open>Transport not connected\<close>
  and leaves the transport as it was, so the channel's write primitive
  (\<open>port.postMessage\<close>, \<open>nats.publish\<close>) is not called. The
  ChromeExtensionTransport has no connection state: every \<open>send\<close> calls the
  channel's write primitive once (whether that call throws or not).
\<close>

theorem send_when_not_connected:
  "(port ct = None \<or> \<not> isConnected ct \<longrightarrow>
      ChromeTransport_send pm postOutcome ct = (Inl (Error ''Transport not connected''), ct)
      \<and> portWrites (snd (ChromeTransport_send pm postOutcome ct)) = portWrites ct)
   \<and> (nats nt = None \<or> \<not> connected nt \<longrightarrow>
      NatsTransport_send nm publishOutcome nt = (Inl (Error ''Transport not connected''), nt)
      \<and> natsWrites (snd (NatsTransport_send nm publishOutcome nt)) = natsWrites nt)
   \<and> length (channelWrites (trace (snd (send message context thrown this))))
       = Suc (length (channelWrites (trace this)))"
  by (auto simp: ChromeTransport_send_def NatsTransport_send_def send_writes)

theorem send_when_not_connected_witness:
  "port (newChromeTransport backoffConfig) = None
   \<and> nats (newNatsTransport natsConfig) = None
   \<and> ChromeTransport_send portRequest None (newChromeTransport backoffConfig)
       = (Inl (Error ''Transport not connected''), newChromeTransport backoffConfig)
   \<and> NatsTransport_send testRequest None (newNatsTransport natsConfig)
       = (Inl (Error ''Transport not connected''), newNatsTransport natsConfig)"
proof -
  have a: "port (newChromeTransport backoffConfig) = None"
    by (simp add: newChromeTransport_def)
  have b: "nats (newNatsTransport natsConfig) = None"
    by (simp add: newNatsTransport_def)
  from send_when_not_connected[of "newChromeTransport backoffConfig" portRequest None
         "newNatsTransport natsConfig" testRequest None uiShow None None
         "newChromeExtensionTransport popupConfig 5"] a b
  show ?thesis by simp
qed

lemma NatsTransport_connect_idem:
  "snd (NatsTransport_connect (snd (NatsTransport_connect nt))) = snd (NatsTransport_connect nt)"
  by (auto simp: NatsTransport_connect_def)

lemma settle_not_pending:
  "st \<noteq> Pending \<Longrightarrow> map_of ps p \<noteq> Some Pending \<Longrightarrow> map_of (settle q st ps) p \<noteq> Some Pending"
  by (simp add: map_of_settle)

lemma settle_fresh:
  "st \<noteq> Pending \<Longrightarrow> map_of (settle p st (AList.update p Pending ps)) p = Some st"
  by (simp add: map_of_settle AList.update_conv')

lemma handleReconnect_connectPromise:
  "connectPromise (handleReconnect ct) = connectPromise ct"
  "ct_promises (handleReconnect ct) = ct_promises ct"
  by (simp_all add: handleReconnect_def Let_def ChromeTransport_setTimeout_def)

lemma connect_not_in_progress: "\<not> connectInProgress (snd (ChromeTransport_connect channel ct))"
  if "\<not> connectInProgress ct"
proof (cases "isConnected ct \<and> port ct \<noteq> None")
  case True
  with that show ?thesis by (simp add: ChromeTransport_connect_def)
next
  case False
  note nc = this
  show ?thesis
  proof (cases "connectPromise ct")
    case (Some p)
    with nc that show ?thesis by (simp add: ChromeTransport_connect_def)
  next
    case None
    show ?thesis
    proof (cases channel)
      case (Inl err)
      with nc None show ?thesis
        by (simp add: ChromeTransport_connect_def Let_def connectInProgress_def
              ChromeTransport_setTimeout_def ChromeTransport_clearTimeout_def
              connectReject_def cleanupConnectionPromise_def
              handleReconnect_connectPromise settle_fresh)
    next
      case (Inr newPort)
      with nc None show ?thesis
        by (simp add: ChromeTransport_connect_def Let_def connectInProgress_def
              ChromeTransport_setTimeout_def ChromeTransport_clearTimeout_def
              setupConnectionHandlers_def connectResolve_def cleanupConnectionPromise_def
              settle_fresh)
    qed
  qed
qed

lemma step_not_in_progress:
  assumes "\<not> connectInProgress ct"
  shows "\<not> connectInProgress (ChromeTransport_step ev ct)"
proof (cases ev)
  case (PortConnect channel)
  with assms show ?thesis by (simp add: connect_not_in_progress)
next
  case PortDisconnectCall
  then show ?thesis
    by (simp add: ChromeTransport_disconnect_def cleanupConnectionPromise_def
          connectInProgress_def split: option.splits)
next
  case (PortSend m postOutcome)
  with assms show ?thesis
    by (auto simp: ChromeTransport_send_def Let_def handleDisconnection_def
          connectInProgress_def handleReconnect_connectPromise split: option.splits)
next
  case PortDisconnected
  with assms show ?thesis
    by (auto simp: handleDisconnection_def Let_def connectInProgress_def
          handleReconnect_connectPromise split: option.splits)
next
  case (PortTimer t channel)
  show ?thesis
  proof (cases "map_of (ct_timers ct) t")
    case None
    with PortTimer assms show ?thesis by (simp add: ChromeTransport_timerFired_def)
  next
    case (Some ad)
    obtain action delay where ad: "ad = (action, delay)" by (cases ad)
    have c: "\<not> connectInProgress (ChromeTransport_clearTimeout t ct)"
      using assms
      by (auto simp: connectInProgress_def ChromeTransport_clearTimeout_def
            split: option.splits)
    show ?thesis
    proof (cases action)
      case ConnectTimeoutTimer
      with PortTimer Some ad c show ?thesis
        by (auto simp: ChromeTransport_timerFired_def Let_def connectInProgress_def
              cleanupConnectionPromise_def split: option.splits)
    next
      case ReconnectTimer
      with PortTimer Some ad connect_not_in_progress[OF c] show ?thesis
        by (simp add: ChromeTransport_timerFired_def Let_def)
    qed
  qed
qed

lemma run_not_in_progress:
  "\<not> connectInProgress ct \<Longrightarrow> \<not> connectInProgress (ChromeTransport_run evs ct)"
  unfolding ChromeTransport_run_def
proof (induction evs arbitrary: ct)
  case Nil
  then show ?case by simp
next
  case (Cons ev evs)
  from Cons.prems have "\<not> connectInProgress (ChromeTransport_step ev ct)"
    by (rule step_not_in_progress)
  from Cons.IH[OF this] show ?case by simp
qed

lemma new_not_in_progress: "\<not> connectInProgress (newChromeTransport cfg)"
  by (simp add: connectInProgress_def newChromeTransport_def)

text \<open>
  Claim C4, as stated, fails for the NatsTransport: while a connection attempt is
  awaiting the NATS client, a second \<open>connect\<close> is rejected with
  \<open>Connection already in progress\<close>, although the attempt in flight then succeeds.
\<close>

theorem connect_in_progress_counterexample:
  "fst (NatsTransport_connect (newNatsTransport natsConfig)) = Awaiting
   \<and> fst (NatsTransport_connect (snd (NatsTransport_connect (newNatsTransport natsConfig))))
       = Settled (Inl (Error ''Connection already in progress''))
   \<and> fst (NatsTransport_connect_resume natsConnectionUp
            (snd (NatsTransport_connect (newNatsTransport natsConfig))))
       = Inr ()"
  by (simp add: NatsTransport_connect_def NatsTransport_connect_resume_def
        newNatsTransport_def natsConnectionUp_def)

text \<open>
  Claim C4, amended. \<open>connect\<close> of a connected transport resolves at once, opens no
  channel and leaves the transport as it was. The transports hold at most one
  connection attempt. A ChromeTransport finishes every attempt inside the \<open>connect\<close>
  call that starts it: in no state that it reaches from its construction is the
  stored connect promise pending, so no \<open>connect\<close> is ever made while an attempt is
  in progress. A NatsTransport that has an attempt in progress rejects a \<open>connect\<close>
  with \<open>Connection already in progress\<close> and starts no second attempt; the one
  attempt it starts otherwise opens one connection.
\<close>

theorem connect_single_attempt:
  "(isConnected ct \<and> port ct \<noteq> None \<longrightarrow>
      ChromeTransport_connect channel ct = (ResolvedImmediately, ct))
   \<and> \<not> connectInProgress (ChromeTransport_run evs (newChromeTransport cfg))
   \<and> (connected nt \<longrightarrow> NatsTransport_connect nt = (Settled (Inr ()), nt))
   \<and> (\<not> connected nt \<and> connecting nt \<longrightarrow>
      NatsTransport_connect nt = (Settled (Inl (Error ''Connection already in progress'')), nt))
   \<and> (\<not> connected nt \<and> \<not> connecting nt \<longrightarrow>
      fst (NatsTransport_connect nt) = Awaiting
      \<and> connecting (snd (NatsTransport_connect nt))
      \<and> natsOpens (snd (NatsTransport_connect nt)) = Suc (natsOpens nt))
   \<and> snd (NatsTransport_connect (snd (NatsTransport_connect nt)))
       = snd (NatsTransport_connect nt)"
proof -
  have a: "isConnected ct \<and> port ct \<noteq> None \<longrightarrow>
      ChromeTransport_connect channel ct = (ResolvedImmediately, ct)"
    by (simp add: ChromeTransport_connect_def)
  have b: "\<not> connectInProgress (ChromeTransport_run evs (newChromeTransport cfg))"
    by (rule run_not_in_progress) (rule new_not_in_progress)
  have c: "(connected nt \<longrightarrow> NatsTransport_connect nt = (Settled (Inr ()), nt))
   \<and> (\<not> connected nt \<and> connecting nt \<longrightarrow>
      NatsTransport_connect nt = (Settled (Inl (Error ''Connection already in progress'')), nt))
   \<and> (\<not> connected nt \<and> \<not> connecting nt \<longrightarrow>
      fst (NatsTransport_connect nt) = Awaiting
      \<and> connecting (snd (NatsTransport_connect nt))
      \<and> natsOpens (snd (NatsTransport_connect nt)) = Suc (natsOpens nt))"
    by (simp add: NatsTransport_connect_def natsOpens_def)
  from a b c show ?thesis
    by (simp add: NatsTransport_connect_idem)
qed

lemma connectedPort_eval:
  "snd (ChromeTransport_connect channelUp (newChromeTransport backoffConfig)) =
     (newChromeTransport backoffConfig)
       \<lparr>port := Some (Suc 0), connectPromise := Some 0, isConnected := True,
        ct_promises := [(0, Fulfilled None)], ct_nextId := 2,
        ct_trace := [SetTimeoutCalled 1 ConnectTimeoutTimer 10000,
                     RuntimeConnect None ''popup-client'', PortListenersAdded (Suc 0),
                     ConnectResolveCalled 0]\<rparr>"
  by (simp add: ChromeTransport_connect_def Let_def newChromeTransport_def backoffConfig_def
        ChromeTransport_setTimeout_def ChromeTransport_clearTimeout_def
        setupConnectionHandlers_def connectResolve_def settle_def
        cleanupConnectionPromise_def orDefault_def channelUp_def truthy_def)

theorem connect_single_attempt_witness:
  "isConnected (snd (ChromeTransport_connect channelUp (newChromeTransport backoffConfig)))
   \<and> port (snd (ChromeTransport_connect channelUp (newChromeTransport backoffConfig))) \<noteq> None
   \<and> ChromeTransport_connect channelUp
         (snd (ChromeTransport_connect channelUp (newChromeTransport backoffConfig)))
       = (ResolvedImmediately,
          snd (ChromeTransport_connect channelUp (newChromeTransport backoffConfig)))
   \<and> \<not> connectInProgress (ChromeTransport_run [PortConnect channelDown]
          (newChromeTransport backoffConfig))
   \<and> \<not> connected (newNatsTransport natsConfig) \<and> \<not> connecting (newNatsTransport natsConfig)
   \<and> connecting (snd (NatsTransport_connect (newNatsTransport natsConfig)))
   \<and> natsOpens (snd (NatsTransport_connect (newNatsTransport natsConfig))) = 1
   \<and> NatsTransport_connect (snd (NatsTransport_connect (newNatsTransport natsConfig)))
       = (Settled (Inl (Error ''Connection already in progress'')),
          snd (NatsTransport_connect (newNatsTransport natsConfig)))
   \<and> connected (snd (NatsTransport_connect_resume natsConnectionUp
         (snd (NatsTransport_connect (newNatsTransport natsConfig)))))
   \<and> NatsTransport_connect (snd (NatsTransport_connect_resume natsConnectionUp
         (snd (NatsTransport_connect (newNatsTransport natsConfig)))))
       = (Settled (Inr ()), snd (NatsTransport_connect_resume natsConnectionUp
         (snd (NatsTransport_connect (newNatsTransport natsConfig)))))"
proof -
  have a: "isConnected (snd (ChromeTransport_connect channelUp (newChromeTransport backoffConfig)))
           \<and> port (snd (ChromeTransport_connect channelUp (newChromeTransport backoffConfig)))
               \<noteq> None"
    by (simp add: connectedPort_eval)
  have c: "\<not> connected (newNatsTransport natsConfig)
           \<and> \<not> connecting (newNatsTransport natsConfig)
           \<and> natsOpens (newNatsTransport natsConfig) = 0"
    by (simp add: newNatsTransport_def natsOpens_def)
  have c': "\<not> connected (snd (NatsTransport_connect (newNatsTransport natsConfig)))
           \<and> connecting (snd (NatsTransport_connect (newNatsTransport natsConfig)))"
    by (simp add: NatsTransport_connect_def newNatsTransport_def)
  have d: "connected (snd (NatsTransport_connect_resume natsConnectionUp
         (snd (NatsTransport_connect (newNatsTransport natsConfig)))))"
    by (simp add: NatsTransport_connect_resume_def natsConnectionUp_def)
  from connect_single_attempt[of
         "snd (ChromeTransport_connect channelUp (newChromeTransport backoffConfig))"
         channelUp "[PortConnect channelDown]" backoffConfig "newNatsTransport natsConfig"]
       connect_single_attempt[of
         "snd (ChromeTransport_connect channelUp (newChromeTransport backoffConfig))"
         channelUp "[PortConnect channelDown]" backoffConfig
         "snd (NatsTransport_connect (newNatsTransport natsConfig))"]
       connect_single_attempt[of
         "snd (ChromeTransport_connect channelUp (newChromeTransport backoffConfig))"
         channelUp "[PortConnect channelDown]" backoffConfig
         "snd (NatsTransport_connect_resume natsConnectionUp
            (snd (NatsTransport_connect (newNatsTransport natsConfig))))"]
       a c c' d
  show ?thesis by simp
qed

lemma handleReconnect_schedules:
  "reconnectAttempts ct < maxRetries (reconnectOptions (ct_config ct)) \<Longrightarrow>
   scheduledDelays (handleReconnect ct)
     = scheduledDelays ct
         @ [initialDelayMs (reconnectOptions (ct_config ct))
              * backoffFactor (reconnectOptions (ct_config ct)) ^ reconnectAttempts ct]
   \<and> reconnectAttempts (handleReconnect ct) = Suc (reconnectAttempts ct)"
  by (simp add: handleReconnect_def Let_def ChromeTransport_setTimeout_def scheduledDelays_def)

lemma handleReconnect_exhausted:
  "\<not> reconnectAttempts ct < maxRetries (reconnectOptions (ct_config ct)) \<Longrightarrow>
   handleReconnect ct = ct"
  by (simp add: handleReconnect_def Let_def)

lemma handleReconnect_example:
  "scheduledDelays ((handleReconnect ^^ 4) (newChromeTransport backoffConfig)) = [100, 200, 400]"
  by (simp add: numeral_eq_Suc handleReconnect_def Let_def ChromeTransport_setTimeout_def
        scheduledDelays_def newChromeTransport_def backoffConfig_def orDefault_def)

lemma failedConnect_eval:
  "snd (ChromeTransport_connect channelDown (newChromeTransport backoffConfig)) =
     (newChromeTransport backoffConfig)
       \<lparr>reconnectAttempts := 1, connectPromise := Some 0,
        ct_timers := [(2, ReconnectTimer, 100)],
        ct_promises := [(0, Rejected (Error ''Could not establish connection''))],
        ct_nextId := 3,
        ct_trace := [SetTimeoutCalled 1 ConnectTimeoutTimer 10000,
                     RuntimeConnect None ''popup-client'',
                     ConnectRejectCalled 0 (Error ''Could not establish connection''),
                     SetTimeoutCalled 2 ReconnectTimer 100]\<rparr>"
  by (simp add: ChromeTransport_connect_def Let_def newChromeTransport_def backoffConfig_def
        channelDown_def ChromeTransport_setTimeout_def ChromeTransport_clearTimeout_def
        connectReject_def settle_def cleanupConnectionPromise_def handleReconnect_def
        orDefault_def truthy_def)

lemma lostConnection_eval:
  "handleDisconnection (snd (ChromeTransport_connect channelUp (newChromeTransport backoffConfig))) =
     (newChromeTransport backoffConfig)
       \<lparr>reconnectAttempts := 1, connectPromise := Some 0,
        ct_timers := [(2, ReconnectTimer, 100)],
        ct_promises := [(0, Fulfilled None)], ct_nextId := 3,
        ct_trace := [SetTimeoutCalled 1 ConnectTimeoutTimer 10000,
                     RuntimeConnect None ''popup-client'', PortListenersAdded (Suc 0),
                     ConnectResolveCalled 0, SetTimeoutCalled 2 ReconnectTimer 100]\<rparr>"
  unfolding connectedPort_eval
  by (simp add: handleDisconnection_def handleReconnect_def Let_def newChromeTransport_def
        backoffConfig_def ChromeTransport_setTimeout_def orDefault_def)

lemma failedConnect_run:
  "scheduledDelays (runReconnects 10 channelDown
      (snd (ChromeTransport_connect channelDown (newChromeTransport backoffConfig)))) = [100]
   \<and> pendingReconnects (runReconnects 10 channelDown
      (snd (ChromeTransport_connect channelDown (newChromeTransport backoffConfig)))) = []
   \<and> channelOpens (runReconnects 10 channelDown
      (snd (ChromeTransport_connect channelDown (newChromeTransport backoffConfig)))) = 1
   \<and> reconnectAttempts (runReconnects 10 channelDown
      (snd (ChromeTransport_connect channelDown (newChromeTransport backoffConfig)))) = 1"
  unfolding failedConnect_eval
  by (simp add: numeral_eq_Suc pendingReconnects_def
        ChromeTransport_timerFired_def ChromeTransport_clearTimeout_def
        ChromeTransport_connect_def scheduledDelays_def channelOpens_def
        newChromeTransport_def)

lemma lostConnection_run:
  "scheduledDelays (runReconnects 10 channelUp
      (handleDisconnection (snd (ChromeTransport_connect channelUp
         (newChromeTransport backoffConfig))))) = [100]
   \<and> pendingReconnects (runReconnects 10 channelUp
      (handleDisconnection (snd (ChromeTransport_connect channelUp
         (newChromeTransport backoffConfig))))) = []
   \<and> channelOpens (runReconnects 10 channelUp
      (handleDisconnection (snd (ChromeTransport_connect channelUp
         (newChromeTransport backoffConfig))))) = 1
   \<and> \<not> isConnected (runReconnects 10 channelUp
      (handleDisconnection (snd (ChromeTransport_connect channelUp
         (newChromeTransport backoffConfig)))))"
  unfolding lostConnection_eval
  by (simp add: numeral_eq_Suc pendingReconnects_def
        ChromeTransport_timerFired_def ChromeTransport_clearTimeout_def
        ChromeTransport_connect_def scheduledDelays_def channelOpens_def
        newChromeTransport_def)

text \<open>
  Claim C5 on the code. The transport is configured with \<open>initialDelayMs = 100\<close>,
  \<open>backoffFactor = 2\<close>, \<open>maxRetries = 3\<close>. First the channel cannot be opened: after
  \<open>connect\<close> has failed, the pending reconnect timers are run until none is left.
  One retry, after 100 ms, is all that is ever scheduled; it finds the promise of the
  failed attempt still stored and returns it without opening the channel, so
  \<open>chrome.runtime.connect\<close> is called once in all and the attempt counter stays 1.
  Then the channel can be opened and a connection that was established is lost:
  again one retry after 100 ms is scheduled, it returns the stored promise of the
  first connection, and the transport stays disconnected.
\<close>

theorem reconnect_retries_evaluation:
  "scheduledDelays (runReconnects 10 channelDown
      (snd (ChromeTransport_connect channelDown (newChromeTransport backoffConfig)))) = [100]
   \<and> pendingReconnects (runReconnects 10 channelDown
      (snd (ChromeTransport_connect channelDown (newChromeTransport backoffConfig)))) = []
   \<and> channelOpens (runReconnects 10 channelDown
      (snd (ChromeTransport_connect channelDown (newChromeTransport backoffConfig)))) = 1
   \<and> reconnectAttempts (runReconnects 10 channelDown
      (snd (ChromeTransport_connect channelDown (newChromeTransport backoffConfig)))) = 1
   \<and> scheduledDelays (runReconnects 10 channelUp
      (handleDisconnection (snd (ChromeTransport_connect channelUp
         (newChromeTransport backoffConfig))))) = [100]
   \<and> pendingReconnects (runReconnects 10 channelUp
      (handleDisconnection (snd (ChromeTransport_connect channelUp
         (newChromeTransport backoffConfig))))) = []
   \<and> channelOpens (runReconnects 10 channelUp
      (handleDisconnection (snd (ChromeTransport_connect channelUp
         (newChromeTransport backoffConfig))))) = 1
   \<and> \<not> isConnected (runReconnects 10 channelUp
      (handleDisconnection (snd (ChromeTransport_connect channelUp
         (newChromeTransport backoffConfig)))))"
  using failedConnect_run lostConnection_run by blast

end
